theory Spec2Isabelle
  imports Complex_Main
begin

text \<open>
  A model of the session engine of the gambling tracker: the hook of
  \<^verbatim>\<open>src/hooks/useGameSession.js\<close> and the majority round count of
  \<^verbatim>\<open>src/components/BankerBoard.jsx\<close>. React state is a record that each operation takes
  and returns; the operations run one at a time, each on the state the previous one left.
  The Supabase tables are part of the state where an operation reads or writes them.
\<close>

section \<open>Numbers\<close>

text \<open>
  Amounts (base stake, running net, last delta) are JavaScript numbers in the source,
  that is, binary floating point. They are modelled as exact rationals. The statements
  below name the expressions the code evaluates and compare them as such; the only law of
  arithmetic they rely on is \<open>x + 0 = x\<close>, which floating-point addition shares. A
  property that needs a law floating point lacks, such as \<open>(x + d) - d = x\<close> for the
  undo of an action, is not stated over this model. Multipliers are integers.
\<close>

type_synonym number = rat

section \<open>Single-player session (useGameSession.js, single-player actions)\<close>

record single_state =
  singleBase :: number
  singleNet :: number
  singleLastAction :: number

text \<open>
  \<^verbatim>\<open>singlePlayerAction(multiplier)\<close>: returns at once when \<^verbatim>\<open>singleBase <= 0\<close>;
  otherwise adds \<^verbatim>\<open>singleBase * multiplier\<close> to the net and stores it as the last action.
\<close>

definition singlePlayerAction :: "int \<Rightarrow> single_state \<Rightarrow> single_state" where
  "singlePlayerAction multiplier s =
     (if singleBase s \<le> 0 then s
      else let delta = singleBase s * of_int multiplier
           in s\<lparr>singleNet := singleNet s + delta, singleLastAction := delta\<rparr>)"

section \<open>Backing store (the Supabase tables of PRD.md)\<close>

text \<open>
  The two tables are lists of rows. \<^verbatim>\<open>rooms.id\<close> and \<^verbatim>\<open>players.uuid\<close> are the primary
  keys: an insert of a room whose id is taken is refused, and an upsert of a player row
  replaces the row with the same uuid or appends a new one. Numeric columns and the
  round history are nullable. The \<^verbatim>\<open>updated_at\<close> and \<^verbatim>\<open>created_at\<close> timestamps are
  written but never read by the code and are left out.
\<close>

datatype role = Banker | Player

datatype room_status = Active | Ended

record round_entry =
  r_id :: int
  r_multiplier :: int
  r_amount :: number
  r_time :: string

record room_row =
  rm_id :: string
  banker_uuid :: string
  status :: room_status

record player_row =
  uuid :: string
  room_id :: string
  p_role :: role
  name :: string
  base_amount :: "number option"
  current_net :: "number option"
  last_action_amount :: "number option"
  round_history :: "round_entry list option"

record store =
  rooms_tbl :: "room_row list"
  players_tbl :: "player_row list"

text \<open>
  A remote call answers with an error or without one. For the calls whose error the source
  inspects, the error is an input of the model: \<open>None\<close> when the call goes through,
  \<open>Some message\<close> when it fails. A failed write leaves the tables as they were, and a
  failed read carries no data: \<^verbatim>\<open>data\<close> and \<^verbatim>\<open>count\<close> are null. That holds also for
  the two lookups of \<^verbatim>\<open>joinRoom\<close> whose error the source never reads (the record of
  the identity and the participant count).
\<close>

type_synonym fault = "string option"

text \<open>JavaScript's \<^verbatim>\<open>x || 0\<close> on a nullable number.\<close>

definition num_or_zero :: "number option \<Rightarrow> number" where
  "num_or_zero x = (case x of None \<Rightarrow> 0 | Some v \<Rightarrow> v)"

text \<open>
  \<^verbatim>\<open>.single()\<close> and \<^verbatim>\<open>.maybeSingle()\<close>: the row when exactly one row matches, no data
  otherwise.
\<close>

fun single :: "'a list \<Rightarrow> 'a option" where
  "single [x] = Some x"
| "single _ = None"

definition select_room :: "fault \<Rightarrow> store \<Rightarrow> string \<Rightarrow> room_row option" where
  "select_room roomErr st code =
     (case roomErr of
        Some e \<Rightarrow> None
      | None \<Rightarrow> single (filter (\<lambda>r. rm_id r = code) (rooms_tbl st)))"

definition select_existing :: "fault \<Rightarrow> store \<Rightarrow> string \<Rightarrow> string \<Rightarrow> player_row option" where
  "select_existing existingErr st code deviceUUID =
     (case existingErr of
        Some e \<Rightarrow> None
      | None \<Rightarrow>
          single (filter (\<lambda>p. room_id p = code \<and> uuid p = deviceUUID) (players_tbl st)))"

text \<open>The exact count of the room's rows, null when the query fails.\<close>

definition count_players :: "fault \<Rightarrow> store \<Rightarrow> string \<Rightarrow> nat option" where
  "count_players countErr st code =
     (case countErr of
        Some e \<Rightarrow> None
      | None \<Rightarrow> Some (length (filter (\<lambda>p. room_id p = code) (players_tbl st))))"

text \<open>JavaScript's \<^verbatim>\<open>count >= 15\<close>: null is converted to 0, so the test is false.\<close>

definition count_at_least :: "nat option \<Rightarrow> nat \<Rightarrow> bool" where
  "count_at_least count n = (case count of None \<Rightarrow> False | Some c \<Rightarrow> c \<ge> n)"

definition insert_room :: "fault \<Rightarrow> room_row \<Rightarrow> store \<Rightarrow> fault \<times> store" where
  "insert_room fault row st =
     (case fault of
        Some e \<Rightarrow> (Some e, st)
      | None \<Rightarrow>
          if \<exists>r \<in> set (rooms_tbl st). rm_id r = rm_id row
          then (Some ''duplicate key value violates unique constraint'', st)
          else (None, st\<lparr>rooms_tbl := rooms_tbl st @ [row]\<rparr>))"

definition upsert_rows :: "player_row \<Rightarrow> player_row list \<Rightarrow> player_row list" where
  "upsert_rows row tbl =
     (if \<exists>p \<in> set tbl. uuid p = uuid row
      then map (\<lambda>p. if uuid p = uuid row then row else p) tbl
      else tbl @ [row])"

definition upsert_player :: "fault \<Rightarrow> player_row \<Rightarrow> store \<Rightarrow> fault \<times> store" where
  "upsert_player fault row st =
     (case fault of
        Some e \<Rightarrow> (Some e, st)
      | None \<Rightarrow> (None, st\<lparr>players_tbl := upsert_rows row (players_tbl st)\<rparr>))"

text \<open>\<^verbatim>\<open>.update(payload).eq(...)\<close>: every matching row takes the payload's columns.\<close>

definition update_players ::
  "fault \<Rightarrow> (player_row \<Rightarrow> bool) \<Rightarrow> (player_row \<Rightarrow> player_row) \<Rightarrow> store \<Rightarrow> fault \<times> store" where
  "update_players fault matches payload st =
     (case fault of
        Some e \<Rightarrow> (Some e, st)
      | None \<Rightarrow>
          (None, st\<lparr>players_tbl := map (\<lambda>p. if matches p then payload p else p) (players_tbl st)\<rparr>))"

section \<open>Multiplayer session (the hook's state)\<close>

datatype mode = Single | Multi

record session =
  mode :: "mode option"
  roomId :: "string option"
  role :: "role option"
  baseAmount :: number
  currentNet :: number
  lastActionAmount :: number
  bankerNet :: number
  players :: "player_row list"
  roomStatus :: "room_status option"
  error :: "string option"
  loading :: bool
  auto_join_room :: "string option"

text \<open>The state of a freshly mounted hook with nothing saved on the device.\<close>

definition fresh_session :: session where
  "fresh_session =
     \<lparr>mode = None, roomId = None, role = None, baseAmount = 0, currentNet = 0,
      lastActionAmount = 0, bankerNet = 0, players = [], roomStatus = None, error = None,
      loading = False, auto_join_room = None\<rparr>"

text \<open>
  What a \<^verbatim>\<open>try\<close> block throws: an \<^verbatim>\<open>Error\<close> made by the hook, or the error object a
  store call returned. \<^verbatim>\<open>err.message || fallback\<close> reads it in the \<^verbatim>\<open>catch\<close> block.
\<close>

datatype thrown = JsError string | StoreError string

fun message :: "thrown \<Rightarrow> string" where
  "message (JsError m) = m"
| "message (StoreError m) = m"

definition message_or :: "thrown \<Rightarrow> string \<Rightarrow> string" where
  "message_or err fallback = (if message err = [] then fallback else message err)"

subsection \<open>createRoom\<close>

text \<open>
  The room code and the fallback display name are drawn at random in the source; they are
  inputs here. The first function is the body of the \<^verbatim>\<open>try\<close> block, the second adds
  the loading flag, the \<^verbatim>\<open>catch\<close> and the \<^verbatim>\<open>finally\<close>.
\<close>

definition createRoom_try ::
  "string \<Rightarrow> string \<Rightarrow> string \<Rightarrow> string \<Rightarrow> fault \<Rightarrow> fault \<Rightarrow> session \<Rightarrow> store
   \<Rightarrow> (thrown + session) \<times> store" where
  "createRoom_try deviceUUID playerName code fallbackName roomFault playerFault s st =
     (case insert_room roomFault \<lparr>rm_id = code, banker_uuid = deviceUUID, status = Active\<rparr> st of
        (Some roomErr, st1) \<Rightarrow> (Inl (StoreError roomErr), st1)
      | (None, st1) \<Rightarrow>
          (case upsert_player playerFault
                  \<lparr>uuid = deviceUUID, room_id = code, p_role = Banker,
                   name = (if playerName = [] then fallbackName else playerName),
                   base_amount = Some 0, current_net = Some 0, last_action_amount = Some 0,
                   round_history = Some []\<rparr> st1 of
             (Some playerErr, st2) \<Rightarrow> (Inl (StoreError playerErr), st2)
           | (None, st2) \<Rightarrow>
               (Inr (s\<lparr>roomId := Some code, role := Some Banker, roomStatus := Some Active,
                       mode := Some Multi, auto_join_room := Some code\<rparr>), st2)))"

definition createRoom ::
  "string \<Rightarrow> string \<Rightarrow> string \<Rightarrow> string \<Rightarrow> fault \<Rightarrow> fault \<Rightarrow> session \<Rightarrow> store
   \<Rightarrow> session \<times> store" where
  "createRoom deviceUUID playerName code fallbackName roomFault playerFault s st =
     (let s0 = s\<lparr>loading := True, error := None\<rparr>
      in case createRoom_try deviceUUID playerName code fallbackName roomFault playerFault s0 st of
           (Inl err, st') \<Rightarrow>
             (s0\<lparr>error := Some (message_or err ''Failed to create room''), loading := False\<rparr>, st')
         | (Inr s1, st') \<Rightarrow> (s1\<lparr>loading := False\<rparr>, st'))"

subsection \<open>joinRoom\<close>

definition joinRoom_try ::
  "string \<Rightarrow> string \<Rightarrow> fault \<Rightarrow> fault \<Rightarrow> fault \<Rightarrow> fault \<Rightarrow> session \<Rightarrow> store \<Rightarrow> string
   \<Rightarrow> (thrown + session) \<times> store" where
  "joinRoom_try deviceUUID playerName roomErr existingErr countErr insertFault s st code =
     (case select_room roomErr st code of
        None \<Rightarrow> (Inl (JsError ''Room not found''), st)
      | Some room \<Rightarrow>
          if status room \<noteq> Active then (Inl (JsError ''Room has ended''), st)
          else
            (case select_existing existingErr st code deviceUUID of
               Some existing \<Rightarrow>
                 (Inr (s\<lparr>roomId := Some code, role := Some (p_role existing),
                         baseAmount := num_or_zero (base_amount existing),
                         currentNet := num_or_zero (current_net existing),
                         lastActionAmount := num_or_zero (last_action_amount existing),
                         roomStatus := Some (status room), mode := Some Multi,
                         auto_join_room := Some code\<rparr>), st)
             | None \<Rightarrow>
                 if count_at_least (count_players countErr st code) 15
                 then (Inl (JsError ''Room is full (max 15 players)''), st)
                 else
                   (let assignedRole = (if banker_uuid room = deviceUUID then Banker else Player)
                    in case upsert_player insertFault
                              \<lparr>uuid = deviceUUID, room_id = code, p_role = assignedRole,
                               name = playerName, base_amount = Some 0, current_net = Some 0,
                               last_action_amount = Some 0, round_history = Some []\<rparr> st of
                         (Some insertErr, st') \<Rightarrow> (Inl (StoreError insertErr), st')
                       | (None, st') \<Rightarrow>
                           (Inr (s\<lparr>roomId := Some code, role := Some assignedRole,
                                   roomStatus := Some (status room), mode := Some Multi,
                                   auto_join_room := Some code\<rparr>), st'))))"

definition joinRoom ::
  "string \<Rightarrow> string \<Rightarrow> fault \<Rightarrow> fault \<Rightarrow> fault \<Rightarrow> fault \<Rightarrow> session \<Rightarrow> store \<Rightarrow> string
   \<Rightarrow> session \<times> store" where
  "joinRoom deviceUUID playerName roomErr existingErr countErr insertFault s st code =
     (let s0 = s\<lparr>loading := True, error := None\<rparr>
      in case joinRoom_try deviceUUID playerName roomErr existingErr countErr insertFault
                s0 st code of
           (Inl err, st') \<Rightarrow>
             (s0\<lparr>error := Some (message_or err ''Failed to join room''), loading := False\<rparr>, st')
         | (Inr s1, st') \<Rightarrow> (s1\<lparr>loading := False\<rparr>, st'))"

subsection \<open>Failure of a room operation\<close>

text \<open>
  The ways \<^verbatim>\<open>createRoom\<close> can fail: the room insert is refused (a failed call or a code
  that is taken) or the banker's upsert fails.
\<close>

definition createRoom_fails :: "fault \<Rightarrow> fault \<Rightarrow> store \<Rightarrow> string \<Rightarrow> bool" where
  "createRoom_fails roomFault playerFault st code =
     (roomFault \<noteq> None \<or> (\<exists>r \<in> set (rooms_tbl st). rm_id r = code) \<or> playerFault \<noteq> None)"

text \<open>
  The ways \<^verbatim>\<open>joinRoom\<close> can fail: room not found, room ended, and for an identity
  whose record the lookup did not return: room full, or the upsert fails.
\<close>

definition joinRoom_fails ::
  "string \<Rightarrow> fault \<Rightarrow> fault \<Rightarrow> fault \<Rightarrow> fault \<Rightarrow> store \<Rightarrow> string \<Rightarrow> bool" where
  "joinRoom_fails deviceUUID roomErr existingErr countErr insertFault st code =
     (case select_room roomErr st code of
        None \<Rightarrow> True
      | Some room \<Rightarrow>
          status room \<noteq> Active \<or>
          (select_existing existingErr st code deviceUUID = None \<and>
           (count_at_least (count_players countErr st code) 15 \<or> insertFault \<noteq> None)))"

text \<open>The session fields a room operation could touch, compared between two states.\<close>

definition same_room_fields :: "session \<Rightarrow> session \<Rightarrow> bool" where
  "same_room_fields s' s =
     (mode s' = mode s \<and> roomId s' = roomId s \<and> role s' = role s \<and>
      baseAmount s' = baseAmount s \<and> currentNet s' = currentNet s \<and>
      lastActionAmount s' = lastActionAmount s \<and> roomStatus s' = roomStatus s \<and>
      bankerNet s' = bankerNet s \<and> players s' = players s \<and>
      auto_join_room s' = auto_join_room s)"

section \<open>Player actions in a room\<close>

text \<open>
  The update calls of the player address the row with the device's uuid in the session's
  room; a session without a room matches no row.
\<close>

definition own_row :: "string \<Rightarrow> session \<Rightarrow> player_row \<Rightarrow> bool" where
  "own_row deviceUUID s p = (uuid p = deviceUUID \<and> roomId s = Some (room_id p))"

text \<open>
  \<^verbatim>\<open>playerAction(multiplier, updatedHistory = null)\<close>: guarded by base amount and role;
  the optimistic update, the remote update, and the rollback to the values the call
  started from when the remote update answers with an error. The payload's
  \<^verbatim>\<open>room_id\<close> is the room id the rows are matched on, so that column stays as it is.
\<close>

definition playerAction ::
  "string \<Rightarrow> fault \<Rightarrow> int \<Rightarrow> round_entry list option \<Rightarrow> session \<Rightarrow> store
   \<Rightarrow> session \<times> store" where
  "playerAction deviceUUID updateFault multiplier updatedHistory s st =
     (if baseAmount s \<le> 0 \<or> role s \<noteq> Some Player then (s, st)
      else
        (let delta = baseAmount s * of_int multiplier;
             newNet = currentNet s + delta;
             s1 = s\<lparr>currentNet := newNet, lastActionAmount := delta\<rparr>;
             payload = (\<lambda>p.
               (let p1 = p\<lparr>current_net := Some newNet, last_action_amount := Some delta\<rparr>
                in case updatedHistory of
                     Some h \<Rightarrow> p1\<lparr>round_history := Some h\<rparr>
                   | None \<Rightarrow> p1))
         in case update_players updateFault (own_row deviceUUID s) payload st of
              (Some updateErr, st') \<Rightarrow>
                (s1\<lparr>currentNet := currentNet s, lastActionAmount := lastActionAmount s,
                    error := Some ''Failed to update. Please try again.''\<rparr>, st')
            | (None, st') \<Rightarrow> (s1, st')))"

text \<open>
  The loop of \<^verbatim>\<open>playerMassTie\<close> that pushes one tie record per missing round. The
  millisecond clock and the time string printed at each iteration are inputs.
\<close>

function push_ties ::
  "int \<Rightarrow> (int \<Rightarrow> string) \<Rightarrow> int \<Rightarrow> int \<Rightarrow> round_entry list \<Rightarrow> round_entry list" where
  "push_ties now clock count i newRecords =
     (if i < count
      then push_ties now clock count (i + 1)
             (newRecords @ [\<lparr>r_id = now + i, r_multiplier = 0, r_amount = 0, r_time = clock i\<rparr>])
      else newRecords)"
  by pat_completeness auto
termination
  by (relation "measure (\<lambda>(now, clock, count, i, newRecords). nat (count - i))") auto

declare push_ties.simps [simp del]

text \<open>
  \<^verbatim>\<open>playerMassTie(count, currentRoundHistory = [])\<close>: returns nothing when the guard
  fails, the augmented history otherwise. The last action amount is zeroed before the
  remote update; an error of the update only sets the error message.
\<close>

definition playerMassTie ::
  "string \<Rightarrow> fault \<Rightarrow> int \<Rightarrow> (int \<Rightarrow> string) \<Rightarrow> int \<Rightarrow> round_entry list \<Rightarrow> session \<Rightarrow> store
   \<Rightarrow> round_entry list option \<times> session \<times> store" where
  "playerMassTie deviceUUID updateFault now clock count currentRoundHistory s st =
     (if count \<le> 0 \<or> role s \<noteq> Some Player then (None, s, st)
      else
        (let newRecords = push_ties now clock count 0 [];
             updatedHistory = newRecords @ currentRoundHistory;
             s1 = s\<lparr>lastActionAmount := 0\<rparr>;
             payload = (\<lambda>p. p\<lparr>current_net := Some (currentNet s),
                               last_action_amount := Some 0,
                               round_history := Some updatedHistory\<rparr>)
         in case update_players updateFault (own_row deviceUUID s) payload st of
              (Some updateErr, st') \<Rightarrow>
                (Some updatedHistory,
                 s1\<lparr>error := Some ''Failed to log missing rounds. Please try again.''\<rparr>, st')
            | (None, st') \<Rightarrow> (Some updatedHistory, s1, st')))"

text \<open>A round-history entry that records a tie.\<close>

definition is_tie :: "round_entry \<Rightarrow> bool" where
  "is_tie e = (r_multiplier e = 0 \<and> r_amount e = 0)"

section \<open>Banker view\<close>

text \<open>
  \<^verbatim>\<open>fetchRoomPlayers\<close>: nothing happens without a room id (null or the empty string) or
  when the fetch answers with an error; otherwise the fetched rows of the room are stored
  and the banker net is set to the negated sum that \<^verbatim>\<open>reduce\<close> computes over them.
\<close>

definition fetchRoomPlayers :: "fault \<Rightarrow> session \<Rightarrow> store \<Rightarrow> session" where
  "fetchRoomPlayers fetchErr s st =
     (case roomId s of
        None \<Rightarrow> s
      | Some rid \<Rightarrow>
          if rid = [] then s
          else
            (case fetchErr of
               Some e \<Rightarrow> s
             | None \<Rightarrow>
                 (let data = filter (\<lambda>p. room_id p = rid) (players_tbl st);
                      totalPlayerNet = foldl (\<lambda>sum p. sum + num_or_zero (current_net p)) 0 data
                  in s\<lparr>players := data, bankerNet := - totalPlayerNet\<rparr>)))"

text \<open>
  The aggregate the specification describes: the negated sum of the nets of the records
  whose role is Player, added up in the order of the records as \<^verbatim>\<open>reduce\<close> does.
\<close>

definition negated_player_sum :: "player_row list \<Rightarrow> number" where
  "negated_player_sum data =
     - foldl (\<lambda>sum p. sum + num_or_zero (current_net p)) 0
         (filter (\<lambda>p. p_role p = Player) data)"

text \<open>
  The majority round count of BankerBoard.jsx. The loop keeps the \<^verbatim>\<open>counts\<close> object,
  \<^verbatim>\<open>maxCount\<close> and \<^verbatim>\<open>majorityRounds\<close>; \<open>count_round\<close> is its body for one element
  of \<^verbatim>\<open>roundCounts\<close>.
\<close>

type_synonym tally = "(nat \<rightharpoonup> nat) \<times> nat \<times> nat"

fun count_round :: "nat \<Rightarrow> tally \<Rightarrow> tally" where
  "count_round rounds (counts, maxCount, majority) =
     (let c = (case counts rounds of None \<Rightarrow> 0 | Some v \<Rightarrow> v) + 1;
          counts' = counts(rounds \<mapsto> c)
      in if c > maxCount then (counts', c, rounds)
         else if c = maxCount \<and> rounds > majority then (counts', maxCount, rounds)
         else (counts', maxCount, majority))"

fun majority_loop :: "nat list \<Rightarrow> tally \<Rightarrow> tally" where
  "majority_loop [] acc = acc"
| "majority_loop (rounds # rest) acc = majority_loop rest (count_round rounds acc)"

definition roundCounts :: "player_row list \<Rightarrow> nat list" where
  "roundCounts players_list =
     map (\<lambda>p. length (case round_history p of None \<Rightarrow> [] | Some h \<Rightarrow> h))
       (filter (\<lambda>p. p_role p = Player) players_list)"

definition majorityRounds :: "player_row list \<Rightarrow> nat" where
  "majorityRounds players_list =
     (if length (roundCounts players_list) > 0
      then (case majority_loop (roundCounts players_list) (Map.empty, 0, 0) of
              (counts, maxCount, majority) \<Rightarrow> majority)
      else 0)"

section \<open>The other writers of the players table\<close>

text \<open>
  \<^verbatim>\<open>!roomId\<close> is false for a room id that is neither null nor the empty string.
\<close>

definition has_room :: "session \<Rightarrow> bool" where
  "has_room s = (case roomId s of None \<Rightarrow> False | Some rid \<Rightarrow> rid \<noteq> [])"

text \<open>
  \<^verbatim>\<open>setPlayerName(name)\<close>: the name itself is hook state outside the session record
  (it is a parameter of \<^verbatim>\<open>createRoom\<close> and \<^verbatim>\<open>joinRoom\<close> here); a player in a room
  also writes it to the own row. The result of the update is not read.
\<close>

definition setPlayerName :: "string \<Rightarrow> fault \<Rightarrow> string \<Rightarrow> session \<Rightarrow> store \<Rightarrow> store" where
  "setPlayerName deviceUUID updateFault nm s st =
     (if mode s = Some Multi \<and> has_room s \<and> role s = Some Player
      then snd (update_players updateFault (own_row deviceUUID s) (\<lambda>p. p\<lparr>name := nm\<rparr>) st)
      else st)"

text \<open>
  \<^verbatim>\<open>setPlayerBase(amount)\<close>: sets the base amount and, in a room, writes it to the own
  row; the result of the update is not read.
\<close>

definition setPlayerBase :: "string \<Rightarrow> fault \<Rightarrow> number \<Rightarrow> session \<Rightarrow> store \<Rightarrow> session \<times> store" where
  "setPlayerBase deviceUUID updateFault amount s st =
     (s\<lparr>baseAmount := amount\<rparr>,
      if has_room s
      then snd (update_players updateFault (own_row deviceUUID s)
                  (\<lambda>p. p\<lparr>base_amount := Some amount\<rparr>) st)
      else st)"

text \<open>
  \<^verbatim>\<open>playerUndo(updatedHistory = null)\<close>: guarded by last action amount and role; the
  optimistic update, the remote update and the rollback, as in \<^verbatim>\<open>playerAction\<close>.
\<close>

definition playerUndo ::
  "string \<Rightarrow> fault \<Rightarrow> round_entry list option \<Rightarrow> session \<Rightarrow> store \<Rightarrow> session \<times> store" where
  "playerUndo deviceUUID updateFault updatedHistory s st =
     (if lastActionAmount s = 0 \<or> role s \<noteq> Some Player then (s, st)
      else
        (let newNet = currentNet s - lastActionAmount s;
             prevLastAction = lastActionAmount s;
             s1 = s\<lparr>currentNet := newNet, lastActionAmount := 0\<rparr>;
             payload = (\<lambda>p.
               (let p1 = p\<lparr>current_net := Some newNet, last_action_amount := Some 0\<rparr>
                in case updatedHistory of
                     Some h \<Rightarrow> p1\<lparr>round_history := Some h\<rparr>
                   | None \<Rightarrow> p1))
         in case update_players updateFault (own_row deviceUUID s) payload st of
              (Some updateErr, st') \<Rightarrow>
                (s1\<lparr>currentNet := currentNet s, lastActionAmount := prevLastAction,
                    error := Some ''Undo failed. Please try again.''\<rparr>, st')
            | (None, st') \<Rightarrow> (s1, st')))"

text \<open>
  \<^verbatim>\<open>leaveRoom()\<close>: a banker in a room marks the room as ended (the result of the update is
  not read); the session is cleared and the saved room code removed.
\<close>

definition leaveRoom :: "fault \<Rightarrow> session \<Rightarrow> store \<Rightarrow> session \<times> store" where
  "leaveRoom updateFault s st =
     (s\<lparr>roomId := None, role := None, baseAmount := 0, currentNet := 0,
        lastActionAmount := 0, bankerNet := 0, players := [], roomStatus := None,
        mode := None, error := None, auto_join_room := None\<rparr>,
      if role s = Some Banker \<and> has_room s \<and> updateFault = None
      then st\<lparr>rooms_tbl :=
                map (\<lambda>r. if roomId s = Some (rm_id r) then r\<lparr>status := Ended\<rparr> else r)
                  (rooms_tbl st)\<rparr>
      else st)"

section \<open>Devices sharing the tables\<close>

text \<open>
  Every device runs one hook on its own session; all of them read and write the same
  tables. An event is one call of the hook on one device, with the answers of its remote
  calls; a reload mounts the hook afresh and keeps only what is saved on the device.
  Calls are taken one at a time. The operations of the hook that are not events here
  (mode selection, the single-player actions, the tie prompt) touch neither the tables nor
  the role and room id of a session; \<^verbatim>\<open>resolveTiePrompt\<close> writes through
  \<^verbatim>\<open>playerMassTie\<close>, and the auto-join on load is a \<^verbatim>\<open>joinRoom\<close>.
\<close>

record world =
  sessions :: "string \<Rightarrow> session"
  tables :: store

datatype event =
    CreateRoom string string string string fault fault
  | JoinRoom string string string fault fault fault fault
  | SetPlayerName string string fault
  | SetPlayerBase string number fault
  | PlayerAction string int "round_entry list option" fault
  | PlayerUndo string "round_entry list option" fault
  | PlayerMassTie string int "int \<Rightarrow> string" int "round_entry list" fault
  | FetchRoomPlayers string fault
  | LeaveRoom string fault
  | Reload string

definition put :: "world \<Rightarrow> string \<Rightarrow> session \<times> store \<Rightarrow> world" where
  "put w d r = \<lparr>sessions = (sessions w)(d := fst r), tables = snd r\<rparr>"

fun step :: "world \<Rightarrow> event \<Rightarrow> world" where
  "step w (CreateRoom d nm code fb roomFault playerFault) =
     put w d (createRoom d nm code fb roomFault playerFault (sessions w d) (tables w))"
| "step w (JoinRoom d nm code roomErr existingErr countErr insertFault) =
     put w d (joinRoom d nm roomErr existingErr countErr insertFault (sessions w d) (tables w) code)"
| "step w (SetPlayerName d nm updateFault) =
     put w d (sessions w d, setPlayerName d updateFault nm (sessions w d) (tables w))"
| "step w (SetPlayerBase d amount updateFault) =
     put w d (setPlayerBase d updateFault amount (sessions w d) (tables w))"
| "step w (PlayerAction d multiplier updatedHistory updateFault) =
     put w d (playerAction d updateFault multiplier updatedHistory (sessions w d) (tables w))"
| "step w (PlayerUndo d updatedHistory updateFault) =
     put w d (playerUndo d updateFault updatedHistory (sessions w d) (tables w))"
| "step w (PlayerMassTie d now clock count currentRoundHistory updateFault) =
     put w d (snd (playerMassTie d updateFault now clock count currentRoundHistory
                     (sessions w d) (tables w)))"
| "step w (FetchRoomPlayers d fetchErr) =
     put w d (fetchRoomPlayers fetchErr (sessions w d) (tables w), tables w)"
| "step w (LeaveRoom d updateFault) = put w d (leaveRoom updateFault (sessions w d) (tables w))"
| "step w (Reload d) =
     put w d (fresh_session\<lparr>auto_join_room := auto_join_room (sessions w d)\<rparr>, tables w)"

fun run_events :: "world \<Rightarrow> event list \<Rightarrow> world" where
  "run_events w [] = w"
| "run_events w (e # es) = run_events (step w e) es"

text \<open>Empty tables and a freshly mounted hook on every device.\<close>

definition initial_world :: world where
  "initial_world =
     \<lparr>sessions = (\<lambda>d. fresh_session), tables = \<lparr>rooms_tbl = [], players_tbl = []\<rparr>\<rparr>"

section \<open>Sequences of joins\<close>

text \<open>
  Identities (device uuid with display name) join a room one after the other, each from a
  freshly mounted hook and with every remote call going through. The result lists the
  error field each of them ends with: \<open>None\<close> for a join that succeeded.
\<close>

fun join_errors :: "string \<Rightarrow> (string \<times> string) list \<Rightarrow> store \<Rightarrow> string option list" where
  "join_errors code [] st = []"
| "join_errors code ((u, nm) # rest) st =
     error (fst (joinRoom u nm None None None None fresh_session st code))
       # join_errors code rest (snd (joinRoom u nm None None None None fresh_session st code))"

section \<open>Invariants used in the proofs\<close>

text \<open>
  What a sequence of joins relies on: the room lookup finds an active room, uuids are
  unique in the players table, and the room holds \<open>n\<close> records.
\<close>

definition room_open :: "store \<Rightarrow> string \<Rightarrow> nat \<Rightarrow> bool" where
  "room_open st code n =
     ((\<exists>room. select_room None st code = Some room \<and> status room = Active) \<and>
      distinct (map uuid (players_tbl st)) \<and> count_players None st code = Some n)"

text \<open>
  What the loop has established after the elements \<open>seen\<close>: the object holds the
  number of occurrences of every element seen, \<^verbatim>\<open>maxCount\<close> is the highest of them,
  and \<^verbatim>\<open>majorityRounds\<close> is the largest element that occurs that often.
\<close>

fun tally_of :: "nat list \<Rightarrow> tally \<Rightarrow> bool" where
  "tally_of seen (counts, maxCount, majority) =
     ((\<forall>r. counts r = (if r \<in> set seen then Some (count_list seen r) else None)) \<and>
      (\<forall>r. count_list seen r \<le> maxCount) \<and>
      (seen = [] \<longrightarrow> maxCount = 0) \<and>
      (seen \<noteq> [] \<longrightarrow>
         count_list seen majority = maxCount \<and>
         (\<forall>r. count_list seen r = maxCount \<longrightarrow> r \<le> majority)))"

text \<open>
  What holds of the players table whatever the devices have done: a record whose role is
  not Player carries net 0 or null, and the own rows of a session with role Player have
  role Player.
\<close>

definition nonplayers_zero :: "player_row list \<Rightarrow> bool" where
  "nonplayers_zero rows =
     (\<forall>p \<in> set rows. p_role p \<noteq> Player \<longrightarrow> num_or_zero (current_net p) = 0)"

definition roles_agree :: "(string \<Rightarrow> session) \<Rightarrow> player_row list \<Rightarrow> bool" where
  "roles_agree ss rows =
     (\<forall>d. role (ss d) = Some Player \<longrightarrow>
        (\<forall>p \<in> set rows. own_row d (ss d) p \<longrightarrow> p_role p = Player))"

definition world_inv :: "world \<Rightarrow> bool" where
  "world_inv w =
     (nonplayers_zero (players_tbl (tables w)) \<and>
      roles_agree (sessions w) (players_tbl (tables w)))"

text \<open>
  The four ways one call of device \<open>d\<close> relates session and rows before and after: no
  write; a reconnection to the one record of the device in a room; an upsert of a zeroed
  row of the device; an update of the device's own rows that keeps uuid, room and role and,
  unless the session's role is Player, the net.
\<close>

definition effect ::
  "string \<Rightarrow> session \<Rightarrow> player_row list \<Rightarrow> session \<Rightarrow> player_row list \<Rightarrow> bool" where
  "effect d s rows s' rows' =
     ((rows' = rows \<and>
         (role s' \<noteq> Some Player \<or> (role s' = role s \<and> roomId s' = roomId s))) \<or>
      (rows' = rows \<and>
         (\<exists>c existing.
            single (filter (\<lambda>p. room_id p = c \<and> uuid p = d) rows) = Some existing \<and>
            role s' = Some (p_role existing) \<and> roomId s' = Some c)) \<or>
      (\<exists>row. rows' = upsert_rows row rows \<and> uuid row = d \<and>
         num_or_zero (current_net row) = 0 \<and> role s' = Some (p_role row)) \<or>
      (\<exists>payload.
         rows' = map (\<lambda>p. if own_row d s p then payload p else p) rows \<and>
         role s' = role s \<and> roomId s' = roomId s \<and>
         (\<forall>p. uuid (payload p) = uuid p \<and> room_id (payload p) = room_id p \<and>
              p_role (payload p) = p_role p) \<and>
         (role s = Some Player \<or> (\<forall>p. current_net (payload p) = current_net p))))"

section \<open>Example data\<close>

text \<open>A room holding sixteen records, every one with base 2, net 6 and last action 6.\<close>

definition full_room :: store where
  "full_room =
     \<lparr>rooms_tbl = [\<lparr>rm_id = ''4821'', banker_uuid = ''z'', status = Active\<rparr>],
      players_tbl =
        map (\<lambda>u. \<lparr>uuid = u, room_id = ''4821'', p_role = Player, name = u,
                   base_amount = Some 2, current_net = Some 6, last_action_amount = Some 6,
                   round_history = None\<rparr>)
          [''a'', ''b'', ''c'', ''d'', ''e'', ''f'', ''g'', ''h'', ''i'', ''j'', ''k'', ''l'',
           ''m'', ''n'', ''o'', ''p'']\<rparr>"

text \<open>Fifteen identities, none of them the banker \<open>''z''\<close>.\<close>

definition fifteen_joiners :: "(string \<times> string) list" where
  "fifteen_joiners =
     map (\<lambda>u. (u, u))
       [''a'', ''b'', ''c'', ''d'', ''e'', ''f'', ''g'', ''h'', ''i'', ''j'', ''k'', ''l'',
        ''m'', ''n'', ''o'']"

text \<open>The tables after the banker \<open>''z''\<close> created room 4821 on an empty store.\<close>

definition created_room :: store where
  "created_room =
     snd (createRoom ''z'' ''Zed'' ''4821'' ''Player 1a2b'' None None fresh_session
            \<lparr>rooms_tbl = [], players_tbl = []\<rparr>)"

text \<open>
  Room 4821 holding fifteen records: the banker's and those of fourteen players.
\<close>

definition room_of_fifteen :: store where
  "room_of_fifteen =
     \<lparr>rooms_tbl = [\<lparr>rm_id = ''4821'', banker_uuid = ''z'', status = Active\<rparr>],
      players_tbl =
        \<lparr>uuid = ''z'', room_id = ''4821'', p_role = Banker, name = ''Zed'',
         base_amount = Some 0, current_net = Some 0, last_action_amount = Some 0,
         round_history = Some []\<rparr> #
        map (\<lambda>u. \<lparr>uuid = u, room_id = ''4821'', p_role = Player, name = u,
                   base_amount = Some 2, current_net = Some 6, last_action_amount = Some 6,
                   round_history = None\<rparr>)
          [''a'', ''b'', ''c'', ''d'', ''e'', ''f'', ''g'', ''h'', ''i'', ''j'', ''k'', ''l'',
           ''m'', ''n'']\<rparr>"

text \<open>
  Room 4821 of the specification's scenario: the banker's zeroed record, player A back at
  net 0 after an undo, player B at net -10.
\<close>

definition scenario_room :: store where
  "scenario_room =
     \<lparr>rooms_tbl = [\<lparr>rm_id = ''4821'', banker_uuid = ''z'', status = Active\<rparr>],
      players_tbl =
        [\<lparr>uuid = ''z'', room_id = ''4821'', p_role = Banker, name = ''Zed'',
          base_amount = Some 0, current_net = Some 0, last_action_amount = Some 0,
          round_history = Some []\<rparr>,
         \<lparr>uuid = ''a'', room_id = ''4821'', p_role = Player, name = ''A'',
          base_amount = Some 2, current_net = Some 0, last_action_amount = Some 0,
          round_history = None\<rparr>,
         \<lparr>uuid = ''b'', room_id = ''4821'', p_role = Player, name = ''B'',
          base_amount = Some 5, current_net = Some (- 10), last_action_amount = Some (- 10),
          round_history = None\<rparr>]\<rparr>"

text \<open>
  The fetched list of the specification's catch-up scenario: the banker's record, player A
  with 3 rounds and player B with 5 rounds.
\<close>

definition won_round :: round_entry where
  "won_round = \<lparr>r_id = 7, r_multiplier = 1, r_amount = 2, r_time = ''11:59:00''\<rparr>"

definition catch_up_players :: "player_row list" where
  "catch_up_players =
     [\<lparr>uuid = ''z'', room_id = ''4821'', p_role = Banker, name = ''Zed'',
       base_amount = Some 0, current_net = Some 0, last_action_amount = Some 0,
       round_history = Some []\<rparr>,
      \<lparr>uuid = ''a'', room_id = ''4821'', p_role = Player, name = ''A'',
       base_amount = Some 2, current_net = Some 6, last_action_amount = Some 2,
       round_history = Some [won_round, won_round, won_round]\<rparr>,
      \<lparr>uuid = ''b'', room_id = ''4821'', p_role = Player, name = ''B'',
       base_amount = Some 2, current_net = Some 10, last_action_amount = Some 2,
       round_history = Some [won_round, won_round, won_round, won_round, won_round]\<rparr>]"

text \<open>
  The specification's scenario as events: the banker z creates room 4821; player a joins,
  sets base 2, applies multiplier 3 and undoes it; player b joins, sets base 5 and applies
  multiplier -2.
\<close>

definition scenario_events :: "event list" where
  "scenario_events =
     [CreateRoom ''z'' ''Zed'' ''4821'' ''Player 1a2b'' None None,
      JoinRoom ''a'' ''A'' ''4821'' None None None None,
      SetPlayerBase ''a'' 2 None,
      PlayerAction ''a'' 3 None None,
      PlayerUndo ''a'' None None,
      JoinRoom ''b'' ''B'' ''4821'' None None None None,
      SetPlayerBase ''b'' 5 None,
      PlayerAction ''b'' (- 2) None None]"

section \<open>Single-player action\<close>

text \<open>
  C8. For every single-player state and every integer multiplier, the action changes
  neither the net nor the last delta when the base stake is at most zero; otherwise the
  net becomes the previous net plus base stake times multiplier and the last delta
  becomes base stake times multiplier. The base stake itself is never touched.
\<close>

theorem singlePlayerAction_effect:
  "(singleBase s \<le> 0 \<longrightarrow>
      singleNet (singlePlayerAction m s) = singleNet s \<and>
      singleLastAction (singlePlayerAction m s) = singleLastAction s) \<and>
   (0 < singleBase s \<longrightarrow>
      singleNet (singlePlayerAction m s) = singleNet s + singleBase s * of_int m \<and>
      singleLastAction (singlePlayerAction m s) = singleBase s * of_int m) \<and>
   singleBase (singlePlayerAction m s) = singleBase s"
  by (simp add: singlePlayerAction_def Let_def)

theorem singlePlayerAction_effect_witness:
  "singleNet (singlePlayerAction 3 \<lparr>singleBase = 2, singleNet = 1, singleLastAction = 0\<rparr>) = 7 \<and>
   singleLastAction (singlePlayerAction 3 \<lparr>singleBase = 2, singleNet = 1, singleLastAction = 0\<rparr>) = 6 \<and>
   singleNet (singlePlayerAction 3 \<lparr>singleBase = 0, singleNet = 1, singleLastAction = 5\<rparr>) = 1 \<and>
   singleLastAction (singlePlayerAction 3 \<lparr>singleBase = 0, singleNet = 1, singleLastAction = 5\<rparr>) = 5"
  using singlePlayerAction_effect [of "\<lparr>singleBase = 2, singleNet = 1, singleLastAction = 0\<rparr>" 3]
    singlePlayerAction_effect [of "\<lparr>singleBase = 0, singleNet = 1, singleLastAction = 5\<rparr>" 3]
  by simp

section \<open>Room operations\<close>

lemma count_at_least_answered [simp]: "count_at_least (Some c) n \<longleftrightarrow> n \<le> c"
  by (simp add: count_at_least_def)

lemma count_at_least_failed [simp]: "\<not> count_at_least None n"
  by (simp add: count_at_least_def)

lemma message_or_nonempty: "fallback \<noteq> [] \<Longrightarrow> message_or err fallback \<noteq> []"
  by (simp add: message_or_def)

lemma createRoom_failure:
  assumes "fst (createRoom_try dev nm code fb rf pf (s\<lparr>loading := True, error := None\<rparr>) st) = Inl err"
  shows "fst (createRoom dev nm code fb rf pf s st) =
           s\<lparr>error := Some (message_or err ''Failed to create room''), loading := False\<rparr>"
proof -
  obtain r st' where r:
    "createRoom_try dev nm code fb rf pf (s\<lparr>loading := True, error := None\<rparr>) st = (r, st')"
    by (cases "createRoom_try dev nm code fb rf pf (s\<lparr>loading := True, error := None\<rparr>) st")
  with assms have "r = Inl err" by simp
  with r show ?thesis by (simp add: createRoom_def Let_def)
qed

lemma createRoom_try_fails_iff:
  "(\<exists>err. fst (createRoom_try dev nm code fb rf pf s st) = Inl err) \<longleftrightarrow>
     createRoom_fails rf pf st code"
  by (auto simp: createRoom_try_def createRoom_fails_def insert_room_def upsert_player_def
      split: option.splits)

lemma createRoom_success:
  assumes "fst (createRoom_try dev nm code fb rf pf (s\<lparr>loading := True, error := None\<rparr>) st) = Inr s1"
  shows "error (fst (createRoom dev nm code fb rf pf s st)) = None"
  using assms
  by (auto simp: createRoom_def createRoom_try_def insert_room_def upsert_player_def Let_def
      split: prod.splits option.splits if_splits)

lemma joinRoom_try_store:
  "fst (joinRoom_try dev nm re xe ce ifl s st code) = Inl err \<Longrightarrow>
   snd (joinRoom_try dev nm re xe ce ifl s st code) = st"
  unfolding joinRoom_try_def upsert_player_def Let_def
  by (auto split: option.splits if_splits)

lemma joinRoom_failure:
  assumes "fst (joinRoom_try dev nm re xe ce ifl (s\<lparr>loading := True, error := None\<rparr>) st code) = Inl err"
  shows "joinRoom dev nm re xe ce ifl s st code =
           (s\<lparr>error := Some (message_or err ''Failed to join room''), loading := False\<rparr>, st)"
proof -
  obtain r st' where r:
    "joinRoom_try dev nm re xe ce ifl (s\<lparr>loading := True, error := None\<rparr>) st code = (r, st')"
    by (cases "joinRoom_try dev nm re xe ce ifl (s\<lparr>loading := True, error := None\<rparr>) st code")
  with assms have "r = Inl err" by simp
  moreover from joinRoom_try_store [OF assms] r have "st' = st" by simp
  ultimately show ?thesis using r by (simp add: joinRoom_def Let_def)
qed

lemma joinRoom_try_fails_iff:
  "(\<exists>err. fst (joinRoom_try dev nm re xe ce ifl s st code) = Inl err) \<longleftrightarrow>
     joinRoom_fails dev re xe ce ifl st code"
  unfolding joinRoom_try_def joinRoom_fails_def upsert_player_def Let_def
  by (simp split: option.splits)

lemma joinRoom_success:
  assumes "fst (joinRoom_try dev nm re xe ce ifl (s\<lparr>loading := True, error := None\<rparr>) st code) = Inr s1"
  shows "error (fst (joinRoom dev nm re xe ce ifl s st code)) = None"
  using assms
  unfolding joinRoom_def joinRoom_try_def upsert_player_def Let_def
  by (auto split: option.splits if_splits)

text \<open>
  C9. A \<^verbatim>\<open>createRoom\<close> or \<^verbatim>\<open>joinRoom\<close> call that fails at any step (room insert refused,
  room not found, room ended, room full, a failed upsert) ends with the error field set to
  a non-empty message and with mode, room id, role, base amount, net, last action amount
  (and room status, banker net, player list and the saved auto-join code) at their values
  from before the call; a failed join also leaves the tables untouched. A call that does
  not fail in one of these ways ends with the error field null.
\<close>

theorem failed_room_operation_keeps_session:
  "(createRoom_fails rf pf st code \<longrightarrow>
      error (fst (createRoom dev nm code fb rf pf s st)) \<noteq> None \<and>
      error (fst (createRoom dev nm code fb rf pf s st)) \<noteq> Some [] \<and>
      same_room_fields (fst (createRoom dev nm code fb rf pf s st)) s) \<and>
   (\<not> createRoom_fails rf pf st code \<longrightarrow>
      error (fst (createRoom dev nm code fb rf pf s st)) = None) \<and>
   (joinRoom_fails dev re xe ce ifl st code' \<longrightarrow>
      error (fst (joinRoom dev nm re xe ce ifl s st code')) \<noteq> None \<and>
      error (fst (joinRoom dev nm re xe ce ifl s st code')) \<noteq> Some [] \<and>
      same_room_fields (fst (joinRoom dev nm re xe ce ifl s st code')) s \<and>
      snd (joinRoom dev nm re xe ce ifl s st code') = st) \<and>
   (\<not> joinRoom_fails dev re xe ce ifl st code' \<longrightarrow>
      error (fst (joinRoom dev nm re xe ce ifl s st code')) = None)"
proof (intro conjI impI)
  let ?s0 = "s\<lparr>loading := True, error := None\<rparr>"
  {
    assume "createRoom_fails rf pf st code"
    then obtain err where "fst (createRoom_try dev nm code fb rf pf ?s0 st) = Inl err"
      using createRoom_try_fails_iff [of dev nm code fb rf pf ?s0 st] by blast
    from createRoom_failure [OF this]
    have eq: "fst (createRoom dev nm code fb rf pf s st) =
        s\<lparr>error := Some (message_or err ''Failed to create room''), loading := False\<rparr>" .
    show "error (fst (createRoom dev nm code fb rf pf s st)) \<noteq> None"
      by (simp add: eq)
    show "error (fst (createRoom dev nm code fb rf pf s st)) \<noteq> Some []"
      by (simp add: eq message_or_nonempty)
    show "same_room_fields (fst (createRoom dev nm code fb rf pf s st)) s"
      by (simp add: eq same_room_fields_def)
  }
  {
    assume "\<not> createRoom_fails rf pf st code"
    then have "\<nexists>err. fst (createRoom_try dev nm code fb rf pf ?s0 st) = Inl err"
      using createRoom_try_fails_iff [of dev nm code fb rf pf ?s0 st] by blast
    then obtain s1 where "fst (createRoom_try dev nm code fb rf pf ?s0 st) = Inr s1"
      by (cases "fst (createRoom_try dev nm code fb rf pf ?s0 st)") auto
    from createRoom_success [OF this]
    show "error (fst (createRoom dev nm code fb rf pf s st)) = None" .
  }
  {
    assume "joinRoom_fails dev re xe ce ifl st code'"
    then obtain err where "fst (joinRoom_try dev nm re xe ce ifl ?s0 st code') = Inl err"
      using joinRoom_try_fails_iff [of dev nm re xe ce ifl ?s0 st code'] by blast
    from joinRoom_failure [OF this]
    have eq: "joinRoom dev nm re xe ce ifl s st code' =
        (s\<lparr>error := Some (message_or err ''Failed to join room''), loading := False\<rparr>, st)" .
    show "error (fst (joinRoom dev nm re xe ce ifl s st code')) \<noteq> None"
      by (simp add: eq)
    show "error (fst (joinRoom dev nm re xe ce ifl s st code')) \<noteq> Some []"
      by (simp add: eq message_or_nonempty)
    show "same_room_fields (fst (joinRoom dev nm re xe ce ifl s st code')) s"
      by (simp add: eq same_room_fields_def)
    show "snd (joinRoom dev nm re xe ce ifl s st code') = st"
      by (simp add: eq)
  }
  {
    assume "\<not> joinRoom_fails dev re xe ce ifl st code'"
    then have "\<nexists>err. fst (joinRoom_try dev nm re xe ce ifl ?s0 st code') = Inl err"
      using joinRoom_try_fails_iff [of dev nm re xe ce ifl ?s0 st code'] by blast
    then obtain s1 where "fst (joinRoom_try dev nm re xe ce ifl ?s0 st code') = Inr s1"
      by (cases "fst (joinRoom_try dev nm re xe ce ifl ?s0 st code')") auto
    from joinRoom_success [OF this]
    show "error (fst (joinRoom dev nm re xe ce ifl s st code')) = None" .
  }
qed

theorem failed_room_operation_keeps_session_witness:
  "createRoom_fails None (Some ''timeout'') \<lparr>rooms_tbl = [], players_tbl = []\<rparr> ''4821'' \<and>
   error (fst (createRoom ''b'' ''Bo'' ''4821'' ''Player 1a2b'' None (Some ''timeout'')
            fresh_session \<lparr>rooms_tbl = [], players_tbl = []\<rparr>)) \<noteq> None \<and>
   same_room_fields (fst (createRoom ''b'' ''Bo'' ''4821'' ''Player 1a2b'' None (Some ''timeout'')
            fresh_session \<lparr>rooms_tbl = [], players_tbl = []\<rparr>)) fresh_session \<and>
   joinRoom_fails ''p'' None None None None \<lparr>rooms_tbl = [], players_tbl = []\<rparr> ''4821'' \<and>
   error (fst (joinRoom ''p'' ''Al'' None None None None fresh_session
            \<lparr>rooms_tbl = [], players_tbl = []\<rparr> ''4821'')) \<noteq> None \<and>
   same_room_fields (fst (joinRoom ''p'' ''Al'' None None None None fresh_session
            \<lparr>rooms_tbl = [], players_tbl = []\<rparr> ''4821'')) fresh_session"
  using failed_room_operation_keeps_session [where rf = None and pf = "Some ''timeout''"
      and st = "\<lparr>rooms_tbl = [], players_tbl = []\<rparr>" and code = "''4821''" and dev = "''b''"
      and nm = "''Bo''" and fb = "''Player 1a2b''" and s = fresh_session]
    failed_room_operation_keeps_session [where re = None and xe = None and ce = None and ifl = None
      and st = "\<lparr>rooms_tbl = [], players_tbl = []\<rparr>" and code' = "''4821''" and dev = "''p''"
      and nm = "''Al''" and s = fresh_session]
  by (simp add: createRoom_fails_def joinRoom_fails_def select_room_def)

text \<open>
  When the room lookup returns an active room and the record lookup returns the record of
  the identity, \<^verbatim>\<open>joinRoom\<close> takes the reconnection branch: it succeeds whatever the
  participant count, the session takes the role of the record and its persisted base
  amount, net and last action amount (a null column read as 0), and the tables are left as
  they were.
\<close>

lemma joinRoom_reconnect_answered:
  assumes "select_room re st code = Some room"
    and "status room = Active"
    and "select_existing xe st code dev = Some existing"
  shows "snd (joinRoom dev nm re xe ce ifl s st code) = st \<and>
         error (fst (joinRoom dev nm re xe ce ifl s st code)) = None \<and>
         mode (fst (joinRoom dev nm re xe ce ifl s st code)) = Some Multi \<and>
         roomId (fst (joinRoom dev nm re xe ce ifl s st code)) = Some code \<and>
         roomStatus (fst (joinRoom dev nm re xe ce ifl s st code)) = Some Active \<and>
         role (fst (joinRoom dev nm re xe ce ifl s st code)) = Some (p_role existing) \<and>
         baseAmount (fst (joinRoom dev nm re xe ce ifl s st code)) =
           num_or_zero (base_amount existing) \<and>
         currentNet (fst (joinRoom dev nm re xe ce ifl s st code)) =
           num_or_zero (current_net existing) \<and>
         lastActionAmount (fst (joinRoom dev nm re xe ce ifl s st code)) =
           num_or_zero (last_action_amount existing)"
  using assms by (simp add: joinRoom_def joinRoom_try_def Let_def)

text \<open>
  C4. The source reads only \<^verbatim>\<open>data\<close> from the record lookup and never its error, so a
  lookup that fails looks like an identity without a record. Player B of the scenario room
  has a record with base 5, net -10 and last action -10. When B joins again and the record
  lookup fails, the call goes on to the count check and the upsert: it ends without an
  error, the session holds base 0, net 0 and last action 0, and B's record in the table is
  the zeroed one. In the room of sixteen records the same call by the reconnecting
  identity c ends with the room-full error. With the lookup answered, both calls restore
  the record.
\<close>

theorem joinRoom_failed_lookup_resets:
  "select_existing None scenario_room ''4821'' ''b'' =
     Some \<lparr>uuid = ''b'', room_id = ''4821'', p_role = Player, name = ''B'',
           base_amount = Some 5, current_net = Some (- 10), last_action_amount = Some (- 10),
           round_history = None\<rparr> \<and>
   error (fst (joinRoom ''b'' ''B'' None (Some ''offline'') None None fresh_session
            scenario_room ''4821'')) = None \<and>
   baseAmount (fst (joinRoom ''b'' ''B'' None (Some ''offline'') None None fresh_session
            scenario_room ''4821'')) = 0 \<and>
   currentNet (fst (joinRoom ''b'' ''B'' None (Some ''offline'') None None fresh_session
            scenario_room ''4821'')) = 0 \<and>
   lastActionAmount (fst (joinRoom ''b'' ''B'' None (Some ''offline'') None None fresh_session
            scenario_room ''4821'')) = 0 \<and>
   select_existing None
      (snd (joinRoom ''b'' ''B'' None (Some ''offline'') None None fresh_session
              scenario_room ''4821'')) ''4821'' ''b'' =
     Some \<lparr>uuid = ''b'', room_id = ''4821'', p_role = Player, name = ''B'',
           base_amount = Some 0, current_net = Some 0, last_action_amount = Some 0,
           round_history = Some []\<rparr> \<and>
   currentNet (fst (joinRoom ''b'' ''B'' None None None None fresh_session
            scenario_room ''4821'')) = - 10 \<and>
   select_existing None full_room ''4821'' ''c'' \<noteq> None \<and>
   error (fst (joinRoom ''c'' ''Cy'' None (Some ''offline'') None None fresh_session
            full_room ''4821'')) = Some ''Room is full (max 15 players)'' \<and>
   error (fst (joinRoom ''c'' ''Cy'' None None None None fresh_session
            full_room ''4821'')) = None"
  unfolding scenario_room_def full_room_def
  by code_simp

section \<open>Optimistic update and rollback\<close>

text \<open>
  C1. For a session with role Player and a positive base amount: when the remote update
  of \<^verbatim>\<open>playerAction\<close> fails, net and last action amount end at the values they had
  before the call, the error message is set and the tables are untouched; when it
  succeeds, the net is the previous net plus base amount times multiplier and the last
  action amount is that delta.
\<close>

theorem playerAction_commit_or_rollback:
  assumes "role s = Some Player" and "0 < baseAmount s"
  shows "(updateFault \<noteq> None \<longrightarrow>
            currentNet (fst (playerAction dev updateFault m hist s st)) = currentNet s \<and>
            lastActionAmount (fst (playerAction dev updateFault m hist s st)) = lastActionAmount s \<and>
            error (fst (playerAction dev updateFault m hist s st)) =
              Some ''Failed to update. Please try again.'' \<and>
            snd (playerAction dev updateFault m hist s st) = st) \<and>
         (updateFault = None \<longrightarrow>
            currentNet (fst (playerAction dev updateFault m hist s st)) =
              currentNet s + baseAmount s * of_int m \<and>
            lastActionAmount (fst (playerAction dev updateFault m hist s st)) =
              baseAmount s * of_int m \<and>
            error (fst (playerAction dev updateFault m hist s st)) = error s)"
  using assms
  by (cases updateFault) (simp_all add: playerAction_def update_players_def Let_def)

theorem playerAction_commit_or_rollback_witness:
  "currentNet (fst (playerAction ''a'' (Some ''offline'') 3 None
      (fresh_session\<lparr>role := Some Player, baseAmount := 2, currentNet := 4, lastActionAmount := -2\<rparr>)
      full_room)) = 4 \<and>
   lastActionAmount (fst (playerAction ''a'' (Some ''offline'') 3 None
      (fresh_session\<lparr>role := Some Player, baseAmount := 2, currentNet := 4, lastActionAmount := -2\<rparr>)
      full_room)) = -2 \<and>
   currentNet (fst (playerAction ''a'' None 3 None
      (fresh_session\<lparr>role := Some Player, baseAmount := 2, currentNet := 4, lastActionAmount := -2\<rparr>)
      full_room)) = 10 \<and>
   lastActionAmount (fst (playerAction ''a'' None 3 None
      (fresh_session\<lparr>role := Some Player, baseAmount := 2, currentNet := 4, lastActionAmount := -2\<rparr>)
      full_room)) = 6"
  using playerAction_commit_or_rollback [of
      "fresh_session\<lparr>role := Some Player, baseAmount := 2, currentNet := 4, lastActionAmount := -2\<rparr>"
      "Some ''offline''" "''a''" 3 None full_room]
    playerAction_commit_or_rollback [of
      "fresh_session\<lparr>role := Some Player, baseAmount := 2, currentNet := 4, lastActionAmount := -2\<rparr>"
      None "''a''" 3 None full_room]
  by (simp add: fresh_session_def)

section \<open>Catch-up ties\<close>

lemma push_ties_length:
  "length (push_ties now clock count i acc) = length acc + nat (count - i)"
proof (induction now clock count i acc rule: push_ties.induct)
  case (1 now clock count i newRecords)
  show ?case
  proof (cases "i < count")
    case True
    with 1 show ?thesis by (subst push_ties.simps) (simp add: nat_diff_distrib')
  next
    case False
    then show ?thesis by (subst push_ties.simps) simp
  qed
qed

lemma push_ties_entries:
  "e \<in> set (push_ties now clock count i acc) \<Longrightarrow> e \<in> set acc \<or> is_tie e"
proof (induction now clock count i acc rule: push_ties.induct)
  case (1 now clock count i newRecords)
  show ?case
  proof (cases "i < count")
    case True
    with 1 show ?thesis
      by (subst (asm) push_ties.simps) (auto simp: is_tie_def)
  next
    case False
    with 1 show ?thesis by (subst (asm) push_ties.simps) simp
  qed
qed

lemma playerMassTie_history:
  assumes "role s = Some Player" and "0 < n"
  shows "fst (playerMassTie dev f now clock n hist s st) = Some (push_ties now clock n 0 [] @ hist)"
  using assms
  by (cases f) (simp_all add: playerMassTie_def update_players_def Let_def)

lemma playerMassTie_session:
  assumes "role s = Some Player" and "0 < n"
  shows "fst (snd (playerMassTie dev f now clock n hist s st)) =
           (case f of
              None \<Rightarrow> s\<lparr>lastActionAmount := 0\<rparr>
            | Some e \<Rightarrow> s\<lparr>lastActionAmount := 0,
                          error := Some ''Failed to log missing rounds. Please try again.''\<rparr>)"
  using assms
  by (cases f) (simp_all add: playerMassTie_def update_players_def Let_def)

lemma playerMassTie_store:
  assumes "role s = Some Player" and "0 < n"
  shows "snd (snd (playerMassTie dev f now clock n hist s st)) =
           snd (update_players f (own_row dev s)
             (\<lambda>p. p\<lparr>current_net := Some (currentNet s), last_action_amount := Some 0,
                     round_history := Some (push_ties now clock n 0 [] @ hist)\<rparr>) st)"
  using assms
  by (cases f) (simp_all add: playerMassTie_def update_players_def Let_def)

text \<open>
  C5. For a session with role Player and a count n > 0, \<^verbatim>\<open>playerMassTie\<close> returns a
  history that is n entries longer than the one passed in: its first n entries are ties
  (multiplier 0, amount 0) and the rest is the history passed in. The session's net is
  unchanged and its last action amount is 0. When the remote update goes through, the
  player's own row holds that history, the unchanged net and last action amount 0.
\<close>

theorem playerMassTie_effect:
  assumes "role s = Some Player" and "0 < n"
  shows "\<exists>h. fst (playerMassTie dev f now clock n hist s st) = Some h \<and>
           length h = length hist + nat n \<and>
           drop (nat n) h = hist \<and>
           (\<forall>e \<in> set (take (nat n) h). is_tie e) \<and>
           currentNet (fst (snd (playerMassTie dev f now clock n hist s st))) = currentNet s \<and>
           lastActionAmount (fst (snd (playerMassTie dev f now clock n hist s st))) = 0 \<and>
           (f = None \<longrightarrow>
              (\<forall>p \<in> set (players_tbl (snd (snd (playerMassTie dev f now clock n hist s st)))).
                 own_row dev s p \<longrightarrow>
                   round_history p = Some h \<and> current_net p = Some (currentNet s) \<and>
                   last_action_amount p = Some 0))"
proof -
  let ?new = "push_ties now clock n 0 []"
  have len: "length ?new = nat n"
    using push_ties_length [of now clock n 0 "[]"] by simp
  have ties: "\<forall>e \<in> set ?new. is_tie e"
    using push_ties_entries [of _ now clock n 0 "[]"] by auto
  have h: "fst (playerMassTie dev f now clock n hist s st) = Some (?new @ hist)"
    by (rule playerMassTie_history [OF assms])
  have l: "length (?new @ hist) = length hist + nat n"
    by (simp add: len)
  have d: "drop (nat n) (?new @ hist) = hist"
    by (simp add: len)
  have t: "\<forall>e \<in> set (take (nat n) (?new @ hist)). is_tie e"
    using ties by (simp add: len)
  have net: "currentNet (fst (snd (playerMassTie dev f now clock n hist s st))) = currentNet s"
    by (simp add: playerMassTie_session [OF assms] split: option.splits)
  have last: "lastActionAmount (fst (snd (playerMassTie dev f now clock n hist s st))) = 0"
    by (simp add: playerMassTie_session [OF assms] split: option.splits)
  have row: "f = None \<longrightarrow>
      (\<forall>p \<in> set (players_tbl (snd (snd (playerMassTie dev f now clock n hist s st)))).
         own_row dev s p \<longrightarrow>
           round_history p = Some (?new @ hist) \<and> current_net p = Some (currentNet s) \<and>
           last_action_amount p = Some 0)"
  proof (intro impI ballI)
    fix p
    assume f: "f = None"
      and p: "p \<in> set (players_tbl (snd (snd (playerMassTie dev f now clock n hist s st))))"
      and own: "own_row dev s p"
    let ?payload = "\<lambda>p. p\<lparr>current_net := Some (currentNet s), last_action_amount := Some 0,
                     round_history := Some (?new @ hist)\<rparr>"
    from p f obtain q where q: "q \<in> set (players_tbl st)"
      and pq: "p = (if own_row dev s q then ?payload q else q)"
      unfolding playerMassTie_store [OF assms] update_players_def by auto
    show "round_history p = Some (?new @ hist) \<and> current_net p = Some (currentNet s) \<and>
           last_action_amount p = Some 0"
    proof (cases "own_row dev s q")
      case True
      with pq show ?thesis by simp
    next
      case False
      with pq own show ?thesis by simp
    qed
  qed
  show ?thesis
    by (rule exI [of _ "?new @ hist"]) (intro conjI h l d t net last row)
qed

theorem playerMassTie_effect_witness:
  "\<exists>h. fst (playerMassTie ''a'' None 1000 (\<lambda>i. ''12:00:00'') 2
              [\<lparr>r_id = 7, r_multiplier = 3, r_amount = 6, r_time = ''11:59:00''\<rparr>]
              (fresh_session\<lparr>role := Some Player, roomId := Some ''4821'', currentNet := 6,
                 lastActionAmount := 6\<rparr>) full_room) = Some h \<and>
       length h = 3 \<and>
       currentNet (fst (snd (playerMassTie ''a'' None 1000 (\<lambda>i. ''12:00:00'') 2
              [\<lparr>r_id = 7, r_multiplier = 3, r_amount = 6, r_time = ''11:59:00''\<rparr>]
              (fresh_session\<lparr>role := Some Player, roomId := Some ''4821'', currentNet := 6,
                 lastActionAmount := 6\<rparr>) full_room))) = 6 \<and>
       lastActionAmount (fst (snd (playerMassTie ''a'' None 1000 (\<lambda>i. ''12:00:00'') 2
              [\<lparr>r_id = 7, r_multiplier = 3, r_amount = 6, r_time = ''11:59:00''\<rparr>]
              (fresh_session\<lparr>role := Some Player, roomId := Some ''4821'', currentNet := 6,
                 lastActionAmount := 6\<rparr>) full_room))) = 0"
proof -
  let ?s = "fresh_session\<lparr>role := Some Player, roomId := Some ''4821'', currentNet := 6,
                 lastActionAmount := 6\<rparr>"
  have r: "role ?s = Some Player" by simp
  have n: "(0::int) < 2" by simp
  from playerMassTie_effect [OF r n, of "''a''" None 1000 "\<lambda>i. ''12:00:00''"
      "[\<lparr>r_id = 7, r_multiplier = 3, r_amount = 6, r_time = ''11:59:00''\<rparr>]" full_room]
  obtain h where "fst (playerMassTie ''a'' None 1000 (\<lambda>i. ''12:00:00'') 2
              [\<lparr>r_id = 7, r_multiplier = 3, r_amount = 6, r_time = ''11:59:00''\<rparr>]
              ?s full_room) = Some h"
    and "length h = length [\<lparr>r_id = 7, r_multiplier = 3, r_amount = 6, r_time = ''11:59:00''\<rparr>] + nat 2"
    and "currentNet (fst (snd (playerMassTie ''a'' None 1000 (\<lambda>i. ''12:00:00'') 2
              [\<lparr>r_id = 7, r_multiplier = 3, r_amount = 6, r_time = ''11:59:00''\<rparr>]
              ?s full_room))) = currentNet ?s"
    and "lastActionAmount (fst (snd (playerMassTie ''a'' None 1000 (\<lambda>i. ''12:00:00'') 2
              [\<lparr>r_id = 7, r_multiplier = 3, r_amount = 6, r_time = ''11:59:00''\<rparr>]
              ?s full_room))) = 0"
    by blast
  then show ?thesis by simp
qed

text \<open>
  C10. \<^verbatim>\<open>playerMassTie\<close> has no rollback. For a session with role Player and n > 0, when
  the remote update fails the call still returns the history with the n tie entries in
  front, the last action amount stays at the 0 it was set to (it is not restored), the net
  is as before, the error message is set, and the tables are untouched.
\<close>

theorem playerMassTie_no_rollback:
  assumes "role s = Some Player" and "0 < n" and "f = Some e"
  shows "fst (playerMassTie dev f now clock n hist s st) = Some (push_ties now clock n 0 [] @ hist) \<and>
         length (push_ties now clock n 0 []) = nat n \<and>
         (\<forall>t \<in> set (push_ties now clock n 0 []). is_tie t) \<and>
         lastActionAmount (fst (snd (playerMassTie dev f now clock n hist s st))) = 0 \<and>
         currentNet (fst (snd (playerMassTie dev f now clock n hist s st))) = currentNet s \<and>
         error (fst (snd (playerMassTie dev f now clock n hist s st))) =
           Some ''Failed to log missing rounds. Please try again.'' \<and>
         snd (snd (playerMassTie dev f now clock n hist s st)) = st"
proof -
  have "length (push_ties now clock n 0 []) = nat n"
    using push_ties_length [of now clock n 0 "[]"] by simp
  moreover have "\<forall>t \<in> set (push_ties now clock n 0 []). is_tie t"
    using push_ties_entries [of _ now clock n 0 "[]"] by auto
  moreover have "snd (snd (playerMassTie dev f now clock n hist s st)) = st"
    using assms(3) by (simp add: playerMassTie_store [OF assms(1,2)] update_players_def)
  ultimately show ?thesis
    using assms(3)
    by (simp add: playerMassTie_history [OF assms(1,2)] playerMassTie_session [OF assms(1,2)])
qed

theorem playerMassTie_no_rollback_witness:
  "fst (playerMassTie ''a'' (Some ''offline'') 1000 (\<lambda>i. ''12:00:00'') 2 []
          (fresh_session\<lparr>role := Some Player, roomId := Some ''4821'', currentNet := 6,
             lastActionAmount := 6\<rparr>) full_room) =
     Some [\<lparr>r_id = 1000, r_multiplier = 0, r_amount = 0, r_time = ''12:00:00''\<rparr>,
           \<lparr>r_id = 1001, r_multiplier = 0, r_amount = 0, r_time = ''12:00:00''\<rparr>] \<and>
   lastActionAmount (fst (snd (playerMassTie ''a'' (Some ''offline'') 1000 (\<lambda>i. ''12:00:00'') 2 []
          (fresh_session\<lparr>role := Some Player, roomId := Some ''4821'', currentNet := 6,
             lastActionAmount := 6\<rparr>) full_room))) = 0 \<and>
   currentNet (fst (snd (playerMassTie ''a'' (Some ''offline'') 1000 (\<lambda>i. ''12:00:00'') 2 []
          (fresh_session\<lparr>role := Some Player, roomId := Some ''4821'', currentNet := 6,
             lastActionAmount := 6\<rparr>) full_room))) = 6 \<and>
   error (fst (snd (playerMassTie ''a'' (Some ''offline'') 1000 (\<lambda>i. ''12:00:00'') 2 []
          (fresh_session\<lparr>role := Some Player, roomId := Some ''4821'', currentNet := 6,
             lastActionAmount := 6\<rparr>) full_room))) =
     Some ''Failed to log missing rounds. Please try again.''"
proof -
  let ?s = "fresh_session\<lparr>role := Some Player, roomId := Some ''4821'', currentNet := 6,
                 lastActionAmount := 6\<rparr>"
  have r: "role ?s = Some Player" by simp
  have n: "(0::int) < 2" by simp
  have ties: "push_ties 1000 (\<lambda>i. ''12:00:00'') 2 0 [] =
      [\<lparr>r_id = 1000, r_multiplier = 0, r_amount = 0, r_time = ''12:00:00''\<rparr>,
       \<lparr>r_id = 1001, r_multiplier = 0, r_amount = 0, r_time = ''12:00:00''\<rparr>]"
    by (simp add: push_ties.simps)
  from playerMassTie_no_rollback [OF r n refl, of "''a''" "''offline''" 1000 "\<lambda>i. ''12:00:00''" "[]" full_room]
  show ?thesis by (simp add: ties)
qed

section \<open>Room capacity\<close>

lemma upsert_rows_uuids:
  assumes "distinct (map uuid tbl)"
  shows "distinct (map uuid (upsert_rows row tbl))"
proof (cases "\<exists>p \<in> set tbl. uuid p = uuid row")
  case True
  have eq: "map uuid (map (\<lambda>p. if uuid p = uuid row then row else p) tbl) = map uuid tbl"
    by (induction tbl) auto
  from True have u: "upsert_rows row tbl = map (\<lambda>p. if uuid p = uuid row then row else p) tbl"
    by (simp add: upsert_rows_def)
  have "map uuid (upsert_rows row tbl) = map uuid tbl"
    unfolding u by (rule eq)
  with assms show ?thesis by (simp only:)
next
  case False
  with assms show ?thesis by (auto simp: upsert_rows_def)
qed

lemma replace_absent:
  "\<forall>p \<in> set tbl. uuid p \<noteq> u \<Longrightarrow> map (\<lambda>p. if uuid p = u then row else p) tbl = tbl"
  by (induction tbl) auto

lemma replace_count:
  assumes "distinct (map uuid tbl)"
    and "\<exists>p \<in> set tbl. uuid p = u"
    and "\<forall>p \<in> set tbl. uuid p = u \<longrightarrow> room_id p \<noteq> c"
    and "room_id row = c"
  shows "length (filter (\<lambda>p. room_id p = c) (map (\<lambda>p. if uuid p = u then row else p) tbl)) =
         Suc (length (filter (\<lambda>p. room_id p = c) tbl))"
  using assms
proof (induction tbl)
  case Nil
  then show ?case by simp
next
  case (Cons q tbl)
  show ?case
  proof (cases "uuid q = u")
    case True
    with Cons.prems(1) have "u \<notin> uuid ` set tbl" by simp
    then have "\<forall>p \<in> set tbl. uuid p \<noteq> u" by blast
    then have "map (\<lambda>p. if uuid p = u then row else p) tbl = tbl"
      by (rule replace_absent)
    with True Cons.prems(3,4) show ?thesis by simp
  next
    case False
    with Cons.prems have "\<exists>p \<in> set tbl. uuid p = u" by auto
    with Cons.IH Cons.prems have
      "length (filter (\<lambda>p. room_id p = c) (map (\<lambda>p. if uuid p = u then row else p) tbl)) =
       Suc (length (filter (\<lambda>p. room_id p = c) tbl))"
      by simp
    with False show ?thesis by simp
  qed
qed

lemma upsert_rows_count:
  assumes "distinct (map uuid tbl)"
    and "\<forall>p \<in> set tbl. uuid p = uuid row \<longrightarrow> room_id p \<noteq> c"
    and "room_id row = c"
  shows "length (filter (\<lambda>p. room_id p = c) (upsert_rows row tbl)) =
         Suc (length (filter (\<lambda>p. room_id p = c) tbl))"
proof (cases "\<exists>p \<in> set tbl. uuid p = uuid row")
  case True
  with replace_count [OF assms(1) True assms(2,3)] show ?thesis
    by (simp add: upsert_rows_def)
next
  case False
  with assms(3) show ?thesis by (simp add: upsert_rows_def)
qed

lemma upsert_rows_members: "p \<in> set (upsert_rows row tbl) \<Longrightarrow> p = row \<or> p \<in> set tbl"
  by (auto simp: upsert_rows_def split: if_splits)

lemma select_existing_absent:
  "\<forall>p \<in> set (players_tbl st). room_id p = code \<longrightarrow> uuid p \<noteq> u \<Longrightarrow>
   select_existing None st code u = None"
proof -
  assume "\<forall>p \<in> set (players_tbl st). room_id p = code \<longrightarrow> uuid p \<noteq> u"
  then have "filter (\<lambda>p. room_id p = code \<and> uuid p = u) (players_tbl st) = []"
    by (auto simp: filter_empty_conv)
  then show ?thesis by (simp add: select_existing_def)
qed

lemma join_full:
  assumes "room_open st code n" and "15 \<le> n"
    and "\<forall>p \<in> set (players_tbl st). room_id p = code \<longrightarrow> uuid p \<noteq> u"
  shows "error (fst (joinRoom u nm None None None None s st code)) = Some ''Room is full (max 15 players)''"
    and "snd (joinRoom u nm None None None None s st code) = st"
proof -
  from assms(1) obtain room where room: "select_room None st code = Some room"
    "status room = Active" and n: "count_players None st code = Some n"
    by (auto simp: room_open_def)
  have ex: "select_existing None st code u = None"
    by (rule select_existing_absent [OF assms(3)])
  have "joinRoom_try u nm None None None None (s\<lparr>loading := True, error := None\<rparr>) st code =
          (Inl (JsError ''Room is full (max 15 players)''), st)"
    using room ex n assms(2) by (simp add: joinRoom_try_def)
  then show "error (fst (joinRoom u nm None None None None s st code)) = Some ''Room is full (max 15 players)''"
    and "snd (joinRoom u nm None None None None s st code) = st"
    by (simp_all add: joinRoom_def Let_def message_or_def)
qed

lemma join_new:
  assumes "room_open st code n" and "n < 15"
    and "\<forall>p \<in> set (players_tbl st). room_id p = code \<longrightarrow> uuid p \<noteq> u"
  shows "error (fst (joinRoom u nm None None None None s st code)) = None"
    and "room_open (snd (joinRoom u nm None None None None s st code)) code (Suc n)"
    and "\<forall>p \<in> set (players_tbl (snd (joinRoom u nm None None None None s st code))).
           room_id p = code \<longrightarrow> uuid p = u \<or> (p \<in> set (players_tbl st) \<and> room_id p = code)"
proof -
  from assms(1) obtain room where room: "select_room None st code = Some room"
    "status room = Active" and n: "count_players None st code = Some n"
    and d: "distinct (map uuid (players_tbl st))"
    by (auto simp: room_open_def)
  have ex: "select_existing None st code u = None"
    by (rule select_existing_absent [OF assms(3)])
  define row where "row = \<lparr>uuid = u, room_id = code,
      p_role = (if banker_uuid room = u then Banker else Player),
      name = nm, base_amount = Some 0, current_net = Some 0,
      last_action_amount = Some 0, round_history = Some []\<rparr>"
  have row: "uuid row = u" "room_id row = code" by (simp_all add: row_def)
  have tried: "snd (joinRoom_try u nm None None None None (s\<lparr>loading := True, error := None\<rparr>) st code) =
          st\<lparr>players_tbl := upsert_rows row (players_tbl st)\<rparr>"
    and ok: "\<exists>s1. fst (joinRoom_try u nm None None None None (s\<lparr>loading := True, error := None\<rparr>) st code) = Inr s1"
    using room ex n assms(2)
    by (simp_all add: joinRoom_try_def upsert_player_def Let_def row_def)
  from ok obtain s1 where s1:
    "fst (joinRoom_try u nm None None None None (s\<lparr>loading := True, error := None\<rparr>) st code) = Inr s1"
    by blast
  from joinRoom_success [OF s1]
  show "error (fst (joinRoom u nm None None None None s st code)) = None" .
  have st': "snd (joinRoom u nm None None None None s st code) =
      st\<lparr>players_tbl := upsert_rows row (players_tbl st)\<rparr>"
    using tried s1
    by (cases "joinRoom_try u nm None None None None (s\<lparr>loading := True, error := None\<rparr>) st code")
      (simp add: joinRoom_def Let_def)
  have cnt: "length (filter (\<lambda>p. room_id p = code) (upsert_rows row (players_tbl st))) =
      Suc (length (filter (\<lambda>p. room_id p = code) (players_tbl st)))"
    using d assms(3) row by (intro upsert_rows_count) auto
  show "room_open (snd (joinRoom u nm None None None None s st code)) code (Suc n)"
    using room n d cnt upsert_rows_uuids [OF d, of row]
    by (simp add: st' room_open_def select_room_def count_players_def)
  show "\<forall>p \<in> set (players_tbl (snd (joinRoom u nm None None None None s st code))).
           room_id p = code \<longrightarrow> uuid p = u \<or> (p \<in> set (players_tbl st) \<and> room_id p = code)"
    using upsert_rows_members [of _ row "players_tbl st"] row by (auto simp: st')
qed

lemma join_errors_nth:
  assumes "room_open st code n"
    and "distinct (map fst js)"
    and "\<forall>p \<in> set (players_tbl st). room_id p = code \<longrightarrow> uuid p \<notin> fst ` set js"
    and "k < length js"
  shows "join_errors code js st ! k =
           (if n + k < 15 then None else Some ''Room is full (max 15 players)'')"
  using assms
proof (induction js arbitrary: st n k)
  case Nil
  then show ?case by simp
next
  case (Cons j js)
  obtain u nm where j: "j = (u, nm)" by (cases j)
  from Cons.prems(3) j have absent:
    "\<forall>p \<in> set (players_tbl st). room_id p = code \<longrightarrow> uuid p \<noteq> u"
    by auto
  let ?st' = "snd (joinRoom u nm None None None None fresh_session st code)"
  show ?case
  proof (cases "n < 15")
    case True
    note new = join_new [OF Cons.prems(1) True absent, of nm fresh_session]
    show ?thesis
    proof (cases k)
      case 0
      with True new(1) j show ?thesis by simp
    next
      case (Suc k')
      have rest: "\<forall>p \<in> set (players_tbl ?st'). room_id p = code \<longrightarrow> uuid p \<notin> fst ` set js"
        using new(3) Cons.prems(2,3) j by force
      from Cons.prems(2) have "distinct (map fst js)" by simp
      from Cons.IH [OF new(2) this rest, of k'] Cons.prems(4) Suc
      show ?thesis by (simp add: j)
    qed
  next
    case False
    then have full: "15 \<le> n" by simp
    note stay = join_full [OF Cons.prems(1) full absent, of nm fresh_session]
    show ?thesis
    proof (cases k)
      case 0
      with False stay(1) j show ?thesis by simp
    next
      case (Suc k')
      have rest: "\<forall>p \<in> set (players_tbl st). room_id p = code \<longrightarrow> uuid p \<notin> fst ` set js"
        using Cons.prems(3) by auto
      from Cons.prems(2) have "distinct (map fst js)" by simp
      from Cons.IH [OF Cons.prems(1) this rest, of k'] Cons.prems(4) Suc False
      show ?thesis by (simp add: j stay(2))
    qed
  qed
qed

lemma createRoom_opens:
  assumes "distinct (map uuid (players_tbl st0))"
    and "\<forall>p \<in> set (players_tbl st0). room_id p \<noteq> code"
    and "error (fst (createRoom b bn code fb None None s st0)) = None"
  shows "room_open (snd (createRoom b bn code fb None None s st0)) code 1"
    and "\<forall>p \<in> set (players_tbl (snd (createRoom b bn code fb None None s st0))).
           room_id p = code \<longrightarrow> uuid p = b"
proof -
  define row where "row = \<lparr>uuid = b, room_id = code, p_role = Banker,
      name = (if bn = [] then fb else bn), base_amount = Some 0, current_net = Some 0,
      last_action_amount = Some 0, round_history = Some []\<rparr>"
  have row: "uuid row = b" "room_id row = code" by (simp_all add: row_def)
  have free: "\<not> (\<exists>r \<in> set (rooms_tbl st0). rm_id r = code)"
  proof
    assume "\<exists>r \<in> set (rooms_tbl st0). rm_id r = code"
    then have "error (fst (createRoom b bn code fb None None s st0)) \<noteq> None"
      by (simp add: createRoom_def createRoom_try_def insert_room_def Let_def)
    with assms(3) show False by simp
  qed
  then have st1: "snd (createRoom b bn code fb None None s st0) =
      \<lparr>rooms_tbl = rooms_tbl st0 @ [\<lparr>rm_id = code, banker_uuid = b, status = Active\<rparr>],
       players_tbl = upsert_rows row (players_tbl st0)\<rparr>"
    by (simp add: createRoom_def createRoom_try_def insert_room_def upsert_player_def Let_def
        row_def)
  from free have none: "filter (\<lambda>r. rm_id r = code) (rooms_tbl st0) = []"
    by (auto simp: filter_empty_conv)
  have cnt: "length (filter (\<lambda>p. room_id p = code) (upsert_rows row (players_tbl st0))) =
      Suc (length (filter (\<lambda>p. room_id p = code) (players_tbl st0)))"
    using assms(1,2) row by (intro upsert_rows_count) auto
  from assms(2) have zero: "filter (\<lambda>p. room_id p = code) (players_tbl st0) = []"
    by (auto simp: filter_empty_conv)
  show "room_open (snd (createRoom b bn code fb None None s st0)) code 1"
    using none cnt zero upsert_rows_uuids [OF assms(1), of row]
    by (simp add: st1 room_open_def select_room_def count_players_def)
  show "\<forall>p \<in> set (players_tbl (snd (createRoom b bn code fb None None s st0))).
           room_id p = code \<longrightarrow> uuid p = b"
    using upsert_rows_members [of _ row "players_tbl st0"] row assms(2) by (auto simp: st1)
qed

text \<open>
  After a successful \<^verbatim>\<open>createRoom\<close> on tables with unique uuids and no record yet
  pointing at the new code, let distinct identities other than the banker join in
  sequence, every remote call going through: the banker's own record counts, so the first
  14 succeed and every later one ends with the room-full error.
\<close>

lemma join_sequence_after_createRoom:
  assumes d: "distinct (map uuid (players_tbl st0))"
    and fk: "\<forall>p \<in> set (players_tbl st0). room_id p \<noteq> code"
    and ok: "error (fst (createRoom b bn code fb None None s st0)) = None"
    and js: "distinct (map fst js)" "b \<notin> fst ` set js" and k: "k < length js"
  shows "join_errors code js (snd (createRoom b bn code fb None None s st0)) ! k =
        (if k < 14 then None else Some ''Room is full (max 15 players)'')"
proof -
  note opened = createRoom_opens [OF d fk ok]
  from opened(2) js(2)
  have "\<forall>p \<in> set (players_tbl (snd (createRoom b bn code fb None None s st0))).
          room_id p = code \<longrightarrow> uuid p \<notin> fst ` set js"
    by auto
  from join_errors_nth [OF opened(1) js(1) this k]
  show ?thesis by simp
qed

text \<open>
  C2. The capacity rule is that a join is refused exactly when the room holds 15 or more
  participant records at the check. The source never reads the error of the count query:
  when the query fails, \<^verbatim>\<open>count\<close> is null, \<^verbatim>\<open>null >= 15\<close> is false, and the join goes
  through. In the room of fifteen records (the banker's and fourteen players') a new
  identity is refused when the count is answered, and is admitted as the sixteenth record
  when the count query fails. Counting joiners only, the room the banker created on an
  empty store takes fourteen of them: the fourteenth succeeds and the fifteenth is refused
  with the message of a maximum of 15 players.
\<close>

theorem capacity_check_skipped_on_failed_count:
  "count_players None room_of_fifteen ''4821'' = Some 15 \<and>
   select_existing None room_of_fifteen ''4821'' ''o'' = None \<and>
   error (fst (joinRoom ''o'' ''Ori'' None None None None fresh_session
            room_of_fifteen ''4821'')) = Some ''Room is full (max 15 players)'' \<and>
   error (fst (joinRoom ''o'' ''Ori'' None None (Some ''offline'') None fresh_session
            room_of_fifteen ''4821'')) = None \<and>
   count_players None
      (snd (joinRoom ''o'' ''Ori'' None None (Some ''offline'') None fresh_session
              room_of_fifteen ''4821'')) ''4821'' = Some 16 \<and>
   count_players None created_room ''4821'' = Some 1 \<and>
   join_errors ''4821'' fifteen_joiners created_room ! 13 = None \<and>
   join_errors ''4821'' fifteen_joiners created_room ! 14 = Some ''Room is full (max 15 players)''"
  unfolding room_of_fifteen_def created_room_def fifteen_joiners_def
  by code_simp

section \<open>Majority round count\<close>

lemma count_round_tally:
  assumes "tally_of seen acc"
  shows "tally_of (seen @ [x]) (count_round x acc)"
proof -
  obtain counts mx mj where acc: "acc = (counts, mx, mj)" by (cases acc)
  from assms acc have counts: "\<And>r. counts r = (if r \<in> set seen then Some (count_list seen r) else None)"
    and le: "\<And>r. count_list seen r \<le> mx"
    and empty: "seen = [] \<Longrightarrow> mx = 0"
    and top: "seen \<noteq> [] \<Longrightarrow> count_list seen mj = mx"
    and tie: "\<And>r. seen \<noteq> [] \<Longrightarrow> count_list seen r = mx \<Longrightarrow> r \<le> mj"
    by simp_all
  define c where "c = count_list seen x + 1"
  have c: "(case counts x of None \<Rightarrow> 0 | Some v \<Rightarrow> v) + 1 = c"
    by (simp add: counts c_def count_list_0_iff)
  have counts': "\<And>r. (counts(x \<mapsto> c)) r =
      (if r \<in> set (seen @ [x]) then Some (count_list (seen @ [x]) r) else None)"
    by (auto simp: counts c_def)
  have body: "count_round x acc =
      (if c > mx then (counts(x \<mapsto> c), c, x)
       else if c = mx \<and> x > mj then (counts(x \<mapsto> c), mx, x)
       else (counts(x \<mapsto> c), mx, mj))"
    by (simp only: acc count_round.simps Let_def c)
  have nonempty: "seen \<noteq> []" if "c \<le> mx"
  proof
    assume "seen = []"
    with empty that show False by (simp add: c_def)
  qed
  consider (higher) "c > mx" | (equal) "c = mx" "x > mj" | (keep) "c \<le> mx" "\<not> (c = mx \<and> x > mj)"
    by linarith
  then show ?thesis
  proof cases
    case higher
    then have step: "count_round x acc = (counts(x \<mapsto> c), c, x)"
      by (simp add: body)
    have a: "count_list (seen @ [x]) r \<le> c" for r
      using le [of r] higher by (cases "x = r") (simp_all add: c_def)
    have b: "r \<le> x" if "count_list (seen @ [x]) r = c" for r
      using le [of r] higher that by (cases "x = r") (simp_all add: c_def)
    have t: "count_list (seen @ [x]) x = c"
      by (simp add: c_def)
    show ?thesis
      unfolding step tally_of.simps using counts' a b t by blast
  next
    case equal
    then have step: "count_round x acc = (counts(x \<mapsto> c), mx, x)"
      by (simp add: body)
    from equal have ne: "seen \<noteq> []" by (intro nonempty) simp
    have a: "count_list (seen @ [x]) r \<le> mx" for r
      using le [of r] equal by (cases "x = r") (simp_all add: c_def)
    have b: "r \<le> x" if "count_list (seen @ [x]) r = mx" for r
      using tie [OF ne, of r] equal that by (cases "x = r") (simp_all add: c_def)
    have t: "count_list (seen @ [x]) x = mx"
      using equal by (simp add: c_def)
    show ?thesis
      unfolding step tally_of.simps using counts' a b t by blast
  next
    case keep
    then have step: "count_round x acc = (counts(x \<mapsto> c), mx, mj)"
      by (auto simp: body)
    from keep have ne: "seen \<noteq> []" by (intro nonempty)
    have "mj \<noteq> x"
    proof
      assume "mj = x"
      with top [OF ne] have "c = mx + 1" by (simp add: c_def)
      with keep show False by simp
    qed
    then have t: "count_list (seen @ [x]) mj = mx"
      using top [OF ne] by simp
    have a: "count_list (seen @ [x]) r \<le> mx" for r
      using le [of r] keep by (cases "x = r") (simp_all add: c_def)
    have b: "r \<le> mj" if "count_list (seen @ [x]) r = mx" for r
      using tie [OF ne, of r] keep that by (cases "x = r") (auto simp: c_def)
    show ?thesis
      unfolding step tally_of.simps using counts' a b t by blast
  qed
qed

lemma majority_loop_tally:
  "tally_of seen acc \<Longrightarrow> tally_of (seen @ xs) (majority_loop xs acc)"
proof (induction xs arbitrary: seen acc)
  case Nil
  then show ?case by simp
next
  case (Cons x xs)
  from Cons.IH [OF count_round_tally [OF Cons.prems, of x]]
  show ?case by simp
qed

lemma tally_of_start: "tally_of [] (Map.empty, 0, 0)"
  by simp

text \<open>
  C7. When at least one record has role Player, the majority round count is one of the
  players' round-history lengths, no length occurs more often than it does, and every
  length that occurs as often is at most as large: the most frequent length, the largest
  one among those tied. With no player the value is 0.
\<close>

theorem majorityRounds_most_frequent:
  "(roundCounts ps \<noteq> [] \<longrightarrow>
      majorityRounds ps \<in> set (roundCounts ps) \<and>
      (\<forall>r. count_list (roundCounts ps) r \<le> count_list (roundCounts ps) (majorityRounds ps)) \<and>
      (\<forall>r. count_list (roundCounts ps) r = count_list (roundCounts ps) (majorityRounds ps)
           \<longrightarrow> r \<le> majorityRounds ps)) \<and>
   (roundCounts ps = [] \<longrightarrow> majorityRounds ps = 0)"
proof (intro conjI impI)
  assume ne: "roundCounts ps \<noteq> []"
  obtain counts mx mj where res: "majority_loop (roundCounts ps) (Map.empty, 0, 0) = (counts, mx, mj)"
    by (cases "majority_loop (roundCounts ps) (Map.empty, 0, 0)")
  from ne res have m: "majorityRounds ps = mj"
    by (simp add: majorityRounds_def)
  from majority_loop_tally [OF tally_of_start, of "roundCounts ps"] res
  have inv: "tally_of (roundCounts ps) (counts, mx, mj)" by simp
  with ne have le: "\<And>r. count_list (roundCounts ps) r \<le> mx"
    and top: "count_list (roundCounts ps) mj = mx"
    and tie: "\<And>r. count_list (roundCounts ps) r = mx \<Longrightarrow> r \<le> mj"
    by simp_all
  from ne obtain y where "y \<in> set (roundCounts ps)" by (cases "roundCounts ps") auto
  then have "count_list (roundCounts ps) y > 0"
    using count_list_0_iff [of "roundCounts ps" y] by auto
  with le [of y] top have "count_list (roundCounts ps) mj > 0" by simp
  then show "majorityRounds ps \<in> set (roundCounts ps)"
    unfolding m using count_list_0_iff [of "roundCounts ps" mj] by simp
  show "\<forall>r. count_list (roundCounts ps) r \<le> count_list (roundCounts ps) (majorityRounds ps)"
    unfolding m top using le by simp
  show "\<forall>r. count_list (roundCounts ps) r = count_list (roundCounts ps) (majorityRounds ps)
           \<longrightarrow> r \<le> majorityRounds ps"
    unfolding m top using tie by simp
next
  assume "roundCounts ps = []"
  then show "majorityRounds ps = 0" by (simp add: majorityRounds_def)
qed

theorem majorityRounds_most_frequent_witness:
  "roundCounts catch_up_players = [3, 5] \<and>
   majorityRounds catch_up_players \<in> {3, 5} \<and>
   5 \<le> majorityRounds catch_up_players"
proof -
  have rc: "roundCounts catch_up_players = [3, 5]"
    by (simp add: roundCounts_def catch_up_players_def)
  from majorityRounds_most_frequent [of catch_up_players]
  have mem: "majorityRounds catch_up_players \<in> set [3, 5]"
    and tie: "\<forall>r. count_list [3, 5] r = count_list [3, 5] (majorityRounds catch_up_players)
           \<longrightarrow> r \<le> majorityRounds catch_up_players"
    unfolding rc by simp_all
  from mem have "count_list [3, 5] (majorityRounds catch_up_players) = 1" by auto
  with tie [rule_format, of 5] have "5 \<le> majorityRounds catch_up_players" by simp
  with mem rc show ?thesis by simp
qed

section \<open>Banker aggregate\<close>

subsection \<open>One call keeps the invariant\<close>

lemma single_Some: "single xs = Some x \<Longrightarrow> xs = [x]"
  by (cases xs rule: single.cases) auto

lemma upsert_rows_same_uuid:
  "p \<in> set (upsert_rows row rows) \<Longrightarrow> uuid p = uuid row \<Longrightarrow> p = row"
  by (auto simp: upsert_rows_def split: if_splits)

lemma effect_same:
  "rows' = rows \<Longrightarrow> role s' = role s \<Longrightarrow> roomId s' = roomId s \<Longrightarrow> effect d s rows s' rows'"
  unfolding effect_def by blast

lemma effect_no_player:
  "rows' = rows \<Longrightarrow> role s' \<noteq> Some Player \<Longrightarrow> effect d s rows s' rows'"
  unfolding effect_def by blast

lemma effect_reconnect:
  "rows' = rows \<Longrightarrow>
   single (filter (\<lambda>p. room_id p = c \<and> uuid p = d) rows) = Some existing \<Longrightarrow>
   role s' = Some (p_role existing) \<Longrightarrow> roomId s' = Some c \<Longrightarrow> effect d s rows s' rows'"
  unfolding effect_def by blast

lemma effect_upsert:
  "rows' = upsert_rows row rows \<Longrightarrow> uuid row = d \<Longrightarrow> num_or_zero (current_net row) = 0 \<Longrightarrow>
   role s' = Some (p_role row) \<Longrightarrow> effect d s rows s' rows'"
  unfolding effect_def by blast

lemma effect_update:
  "rows' = map (\<lambda>p. if own_row d s p then payload p else p) rows \<Longrightarrow>
   role s' = role s \<Longrightarrow> roomId s' = roomId s \<Longrightarrow>
   (\<And>p. uuid (payload p) = uuid p) \<Longrightarrow> (\<And>p. room_id (payload p) = room_id p) \<Longrightarrow>
   (\<And>p. p_role (payload p) = p_role p) \<Longrightarrow>
   role s = Some Player \<or> (\<forall>p. current_net (payload p) = current_net p) \<Longrightarrow>
   effect d s rows s' rows'"
  unfolding effect_def by blast

lemma effect_preserves:
  assumes zero: "nonplayers_zero rows" and agree: "roles_agree ss rows"
    and eff: "effect d (ss d) rows s' rows'"
  shows "nonplayers_zero rows' \<and> roles_agree (ss(d := s')) rows'"
proof -
  have others: "own_row d' (ss d') p \<Longrightarrow> p \<in> set rows \<Longrightarrow> role (ss d') = Some Player \<Longrightarrow>
      p_role p = Player" for d' p
    using agree unfolding roles_agree_def by blast
  from eff consider
    (same) "rows' = rows" "role s' \<noteq> Some Player \<or> (role s' = role (ss d) \<and> roomId s' = roomId (ss d))"
    | (reconnect) c existing where "rows' = rows"
        "single (filter (\<lambda>p. room_id p = c \<and> uuid p = d) rows) = Some existing"
        "role s' = Some (p_role existing)" "roomId s' = Some c"
    | (upsert) row where "rows' = upsert_rows row rows" "uuid row = d"
        "num_or_zero (current_net row) = 0" "role s' = Some (p_role row)"
    | (update) payload where
        "rows' = map (\<lambda>p. if own_row d (ss d) p then payload p else p) rows"
        "role s' = role (ss d)" "roomId s' = roomId (ss d)"
        "\<And>p. uuid (payload p) = uuid p" "\<And>p. room_id (payload p) = room_id p"
        "\<And>p. p_role (payload p) = p_role p"
        "role (ss d) = Some Player \<or> (\<forall>p. current_net (payload p) = current_net p)"
    unfolding effect_def by blast
  then show ?thesis
  proof cases
    case same
    have "roles_agree (ss(d := s')) rows"
      unfolding roles_agree_def
    proof (intro allI impI ballI)
      fix d' p
      assume r: "role ((ss(d := s')) d') = Some Player" and p: "p \<in> set rows"
        and own: "own_row d' ((ss(d := s')) d') p"
      show "p_role p = Player"
      proof (cases "d' = d")
        case True
        with r same(2) have "role (ss d) = Some Player" "roomId s' = roomId (ss d)" by auto
        moreover from own True this(2) have "own_row d (ss d) p" by (simp add: own_row_def)
        ultimately show ?thesis using others p by blast
      next
        case False
        with r own others p show ?thesis by simp
      qed
    qed
    with zero same(1) show ?thesis by simp
  next
    case reconnect
    from single_Some [OF reconnect(2)]
    have only: "filter (\<lambda>p. room_id p = c \<and> uuid p = d) rows = [existing]" .
    have "roles_agree (ss(d := s')) rows"
      unfolding roles_agree_def
    proof (intro allI impI ballI)
      fix d' p
      assume r: "role ((ss(d := s')) d') = Some Player" and p: "p \<in> set rows"
        and own: "own_row d' ((ss(d := s')) d') p"
      show "p_role p = Player"
      proof (cases "d' = d")
        case True
        with own reconnect(4) have "room_id p = c \<and> uuid p = d" by (auto simp: own_row_def)
        with p have "p \<in> set (filter (\<lambda>p. room_id p = c \<and> uuid p = d) rows)" by simp
        with only have "p = existing" by simp
        with r True reconnect(3) show ?thesis by simp
      next
        case False
        with r own others p show ?thesis by simp
      qed
    qed
    with zero reconnect(1) show ?thesis by simp
  next
    case upsert
    have z: "nonplayers_zero rows'"
      unfolding nonplayers_zero_def
    proof (intro ballI impI)
      fix p
      assume "p \<in> set rows'" and np: "p_role p \<noteq> Player"
      with upsert(1) have "p = row \<or> p \<in> set rows"
        by (auto dest: upsert_rows_members)
      with upsert(3) zero np show "num_or_zero (current_net p) = 0"
        unfolding nonplayers_zero_def by blast
    qed
    have "roles_agree (ss(d := s')) rows'"
      unfolding roles_agree_def
    proof (intro allI impI ballI)
      fix d' p
      assume r: "role ((ss(d := s')) d') = Some Player" and p: "p \<in> set rows'"
        and own: "own_row d' ((ss(d := s')) d') p"
      show "p_role p = Player"
      proof (cases "d' = d")
        case True
        with own upsert(2) have "uuid p = uuid row" by (simp add: own_row_def)
        with p upsert(1) have "p = row" by (auto dest: upsert_rows_same_uuid)
        with r True upsert(4) show ?thesis by simp
      next
        case False
        with own upsert(2) have "p \<noteq> row" by (auto simp: own_row_def)
        with p upsert(1) have "p \<in> set rows" by (auto dest: upsert_rows_members)
        with False r own others show ?thesis by simp
      qed
    qed
    with z show ?thesis by simp
  next
    case update
    have shape: "q \<in> set rows' \<Longrightarrow>
        (\<exists>p \<in> set rows. own_row d (ss d) p \<and> q = payload p) \<or> q \<in> set rows" for q
      unfolding update(1) by auto
    have z: "nonplayers_zero rows'"
      unfolding nonplayers_zero_def
    proof (intro ballI impI)
      fix q
      assume q: "q \<in> set rows'" and np: "p_role q \<noteq> Player"
      from shape [OF q] show "num_or_zero (current_net q) = 0"
      proof
        assume "\<exists>p \<in> set rows. own_row d (ss d) p \<and> q = payload p"
        then obtain p where p: "p \<in> set rows" "own_row d (ss d) p" "q = payload p" by blast
        from np p(3) update(6) have npp: "p_role p \<noteq> Player" by simp
        from update(7) show ?thesis
        proof
          assume "role (ss d) = Some Player"
          with others p(1,2) npp show ?thesis by blast
        next
          assume "\<forall>p. current_net (payload p) = current_net p"
          with p(3) have "current_net q = current_net p" by simp
          with zero p(1) npp show ?thesis unfolding nonplayers_zero_def by simp
        qed
      next
        assume "q \<in> set rows"
        with zero np show ?thesis unfolding nonplayers_zero_def by blast
      qed
    qed
    have "roles_agree (ss(d := s')) rows'"
      unfolding roles_agree_def
    proof (intro allI impI ballI)
      fix d' q
      assume r: "role ((ss(d := s')) d') = Some Player" and q: "q \<in> set rows'"
        and own: "own_row d' ((ss(d := s')) d') q"
      from shape [OF q] show "p_role q = Player"
      proof
        assume "\<exists>p \<in> set rows. own_row d (ss d) p \<and> q = payload p"
        then obtain p where p: "p \<in> set rows" "own_row d (ss d) p" "q = payload p" by blast
        from p(2,3) update(4) have "uuid q = d" by (simp add: own_row_def)
        with own have "d' = d" by (simp add: own_row_def)
        with r update(2) have "role (ss d) = Some Player" by simp
        with others p(1,2) have "p_role p = Player" by blast
        with p(3) update(6) show ?thesis by simp
      next
        assume old: "q \<in> set rows"
        show ?thesis
        proof (cases "d' = d")
          case True
          with r update(2) have "role (ss d) = Some Player" by simp
          moreover from own True update(3) have "own_row d (ss d) q" by (simp add: own_row_def)
          ultimately show ?thesis using others old by blast
        next
          case False
          with r own others old show ?thesis by simp
        qed
      qed
    qed
    with z show ?thesis by simp
  qed
qed

subsection \<open>What each call does to session and rows\<close>

lemma createRoom_effect:
  "effect d s (players_tbl st) (fst (createRoom d nm code fb rf pf s st))
     (players_tbl (snd (createRoom d nm code fb rf pf s st)))"
proof (cases "rf = None \<and> \<not> (\<exists>r \<in> set (rooms_tbl st). rm_id r = code) \<and> pf = None")
  case True
  then show ?thesis
    by (intro effect_upsert [where row = "\<lparr>uuid = d, room_id = code, p_role = Banker,
          name = (if nm = [] then fb else nm), base_amount = Some 0, current_net = Some 0,
          last_action_amount = Some 0, round_history = Some []\<rparr>"])
      (simp_all add: createRoom_def createRoom_try_def insert_room_def upsert_player_def
        Let_def num_or_zero_def)
next
  case False
  then have "players_tbl (snd (createRoom d nm code fb rf pf s st)) = players_tbl st"
    and "role (fst (createRoom d nm code fb rf pf s st)) = role s"
    and "roomId (fst (createRoom d nm code fb rf pf s st)) = roomId s"
    by (auto simp: createRoom_def createRoom_try_def insert_room_def upsert_player_def Let_def
        split: option.splits)
  then show ?thesis by (intro effect_same)
qed

lemma joinRoom_effect:
  "effect d s (players_tbl st) (fst (joinRoom d nm re xe ce ifl s st code))
     (players_tbl (snd (joinRoom d nm re xe ce ifl s st code)))"
proof (cases "joinRoom_fails d re xe ce ifl st code")
  case True
  then obtain err where
    "fst (joinRoom_try d nm re xe ce ifl (s\<lparr>loading := True, error := None\<rparr>) st code) = Inl err"
    using joinRoom_try_fails_iff [of d nm re xe ce ifl "s\<lparr>loading := True, error := None\<rparr>" st code]
    by blast
  from joinRoom_failure [OF this] show ?thesis
    by (intro effect_same) simp_all
next
  case False
  then obtain room where room: "select_room re st code = Some room" "status room = Active"
    by (auto simp: joinRoom_fails_def split: option.splits)
  show ?thesis
  proof (cases "select_existing xe st code d")
    case (Some existing)
    note answered = joinRoom_reconnect_answered [OF room Some, of nm ce ifl s]
    from Some have "single (filter (\<lambda>p. room_id p = code \<and> uuid p = d) (players_tbl st)) =
        Some existing"
      by (simp add: select_existing_def split: option.splits)
    with answered show ?thesis
      by (intro effect_reconnect [where c = code and existing = existing]) simp_all
  next
    case None
    with False room have go: "\<not> count_at_least (count_players ce st code) 15" "ifl = None"
      by (auto simp: joinRoom_fails_def)
    define row where "row = \<lparr>uuid = d, room_id = code,
        p_role = (if banker_uuid room = d then Banker else Player),
        name = nm, base_amount = Some 0, current_net = Some 0,
        last_action_amount = Some 0, round_history = Some []\<rparr>"
    have "players_tbl (snd (joinRoom d nm re xe ce ifl s st code)) =
        upsert_rows row (players_tbl st)"
      and "role (fst (joinRoom d nm re xe ce ifl s st code)) = Some (p_role row)"
      using room None go
      by (simp_all add: joinRoom_def joinRoom_try_def upsert_player_def Let_def row_def)
    then show ?thesis
      by (intro effect_upsert [where row = row]) (simp_all add: row_def num_or_zero_def)
  qed
qed

lemma playerAction_effect:
  "effect d s (players_tbl st) (fst (playerAction d f m h s st))
     (players_tbl (snd (playerAction d f m h s st)))"
proof (cases "baseAmount s \<le> 0 \<or> role s \<noteq> Some Player \<or> f \<noteq> None")
  case True
  then have "players_tbl (snd (playerAction d f m h s st)) = players_tbl st"
    and "role (fst (playerAction d f m h s st)) = role s"
    and "roomId (fst (playerAction d f m h s st)) = roomId s"
    by (auto simp: playerAction_def update_players_def Let_def split: option.splits)
  then show ?thesis by (intro effect_same)
next
  case False
  define payload :: "player_row \<Rightarrow> player_row" where "payload = (\<lambda>p.
      (let p1 = p\<lparr>current_net := Some (currentNet s + baseAmount s * of_int m),
                   last_action_amount := Some (baseAmount s * of_int m)\<rparr>
       in case h of Some hs \<Rightarrow> p1\<lparr>round_history := Some hs\<rparr> | None \<Rightarrow> p1))"
  have keeps: "uuid (payload p) = uuid p" "room_id (payload p) = room_id p"
    "p_role (payload p) = p_role p" for p
    by (simp_all add: payload_def Let_def split: option.splits)
  from False have "players_tbl (snd (playerAction d f m h s st)) =
      map (\<lambda>p. if own_row d s p then payload p else p) (players_tbl st)"
    and "role (fst (playerAction d f m h s st)) = role s"
    and "roomId (fst (playerAction d f m h s st)) = roomId s"
    by (simp_all add: playerAction_def update_players_def Let_def payload_def)
  with False keeps show ?thesis
    by (intro effect_update [where payload = payload]) simp_all
qed

lemma playerUndo_effect:
  "effect d s (players_tbl st) (fst (playerUndo d f h s st))
     (players_tbl (snd (playerUndo d f h s st)))"
proof (cases "lastActionAmount s = 0 \<or> role s \<noteq> Some Player \<or> f \<noteq> None")
  case True
  then have "players_tbl (snd (playerUndo d f h s st)) = players_tbl st"
    and "role (fst (playerUndo d f h s st)) = role s"
    and "roomId (fst (playerUndo d f h s st)) = roomId s"
    by (auto simp: playerUndo_def update_players_def Let_def split: option.splits)
  then show ?thesis by (intro effect_same)
next
  case False
  define payload :: "player_row \<Rightarrow> player_row" where "payload = (\<lambda>p.
      (let p1 = p\<lparr>current_net := Some (currentNet s - lastActionAmount s),
                   last_action_amount := Some 0\<rparr>
       in case h of Some hs \<Rightarrow> p1\<lparr>round_history := Some hs\<rparr> | None \<Rightarrow> p1))"
  have keeps: "uuid (payload p) = uuid p" "room_id (payload p) = room_id p"
    "p_role (payload p) = p_role p" for p
    by (simp_all add: payload_def Let_def split: option.splits)
  from False have "players_tbl (snd (playerUndo d f h s st)) =
      map (\<lambda>p. if own_row d s p then payload p else p) (players_tbl st)"
    and "role (fst (playerUndo d f h s st)) = role s"
    and "roomId (fst (playerUndo d f h s st)) = roomId s"
    by (simp_all add: playerUndo_def update_players_def Let_def payload_def)
  with False keeps show ?thesis
    by (intro effect_update [where payload = payload]) simp_all
qed

lemma massTie_rows_effect:
  "effect d s (players_tbl st) (fst (snd (playerMassTie d f now clock n hist s st)))
     (players_tbl (snd (snd (playerMassTie d f now clock n hist s st))))"
proof (cases "n \<le> 0 \<or> role s \<noteq> Some Player \<or> f \<noteq> None")
  case True
  then have "players_tbl (snd (snd (playerMassTie d f now clock n hist s st))) = players_tbl st"
    and "role (fst (snd (playerMassTie d f now clock n hist s st))) = role s"
    and "roomId (fst (snd (playerMassTie d f now clock n hist s st))) = roomId s"
    by (auto simp: playerMassTie_def update_players_def Let_def split: option.splits)
  then show ?thesis by (intro effect_same)
next
  case False
  define payload :: "player_row \<Rightarrow> player_row" where "payload = (\<lambda>p. p\<lparr>current_net := Some (currentNet s),
      last_action_amount := Some 0,
      round_history := Some (push_ties now clock n 0 [] @ hist)\<rparr>)"
  have keeps: "uuid (payload p) = uuid p" "room_id (payload p) = room_id p"
    "p_role (payload p) = p_role p" for p
    by (simp_all add: payload_def)
  from False have "players_tbl (snd (snd (playerMassTie d f now clock n hist s st))) =
      map (\<lambda>p. if own_row d s p then payload p else p) (players_tbl st)"
    and "role (fst (snd (playerMassTie d f now clock n hist s st))) = role s"
    and "roomId (fst (snd (playerMassTie d f now clock n hist s st))) = roomId s"
    by (simp_all add: playerMassTie_def update_players_def Let_def payload_def)
  with False keeps show ?thesis
    by (intro effect_update [where payload = payload]) simp_all
qed

lemma setPlayerBase_effect:
  "effect d s (players_tbl st) (fst (setPlayerBase d f amount s st))
     (players_tbl (snd (setPlayerBase d f amount s st)))"
proof (cases "has_room s \<and> f = None")
  case True
  then have "players_tbl (snd (setPlayerBase d f amount s st)) =
      map (\<lambda>p. if own_row d s p then p\<lparr>base_amount := Some amount\<rparr> else p) (players_tbl st)"
    by (simp add: setPlayerBase_def update_players_def)
  then show ?thesis
    by (intro effect_update [where payload = "\<lambda>p. p\<lparr>base_amount := Some amount\<rparr>"])
      (simp_all add: setPlayerBase_def)
next
  case False
  then have "players_tbl (snd (setPlayerBase d f amount s st)) = players_tbl st"
    by (auto simp: setPlayerBase_def update_players_def split: option.splits)
  then show ?thesis by (intro effect_same) (simp_all add: setPlayerBase_def)
qed

lemma setPlayerName_effect:
  "effect d s (players_tbl st) s (players_tbl (setPlayerName d f nm s st))"
proof (cases "mode s = Some Multi \<and> has_room s \<and> role s = Some Player \<and> f = None")
  case True
  then have "players_tbl (setPlayerName d f nm s st) =
      map (\<lambda>p. if own_row d s p then p\<lparr>name := nm\<rparr> else p) (players_tbl st)"
    by (simp add: setPlayerName_def update_players_def)
  then show ?thesis
    by (intro effect_update [where payload = "\<lambda>p. p\<lparr>name := nm\<rparr>"]) simp_all
next
  case False
  then have "players_tbl (setPlayerName d f nm s st) = players_tbl st"
    by (auto simp: setPlayerName_def update_players_def split: option.splits)
  then show ?thesis by (intro effect_same) simp_all
qed

lemma fetchRoomPlayers_keeps: "role (fetchRoomPlayers f s st) = role s"
  "roomId (fetchRoomPlayers f s st) = roomId s"
  by (simp_all add: fetchRoomPlayers_def Let_def split: option.splits)

lemma step_effect:
  "\<exists>d. effect d (sessions w d) (players_tbl (tables w)) (sessions (step w e) d)
          (players_tbl (tables (step w e))) \<and>
        sessions (step w e) = (sessions w)(d := sessions (step w e) d)"
proof (cases e)
  case (CreateRoom d nm code fb rf pf)
  with createRoom_effect [of d "sessions w d" "tables w" nm code fb rf pf]
  show ?thesis by (intro exI [of _ d]) (simp add: put_def)
next
  case (JoinRoom d nm code re xe ce ifl)
  with joinRoom_effect [of d "sessions w d" "tables w" nm re xe ce ifl code]
  show ?thesis by (intro exI [of _ d]) (simp add: put_def)
next
  case (SetPlayerName d nm f)
  with setPlayerName_effect [of d "sessions w d" "tables w" f nm]
  show ?thesis by (intro exI [of _ d]) (simp add: put_def)
next
  case (SetPlayerBase d amount f)
  with setPlayerBase_effect [of d "sessions w d" "tables w" f amount]
  show ?thesis by (intro exI [of _ d]) (simp add: put_def)
next
  case (PlayerAction d m h f)
  with playerAction_effect [of d "sessions w d" "tables w" f m h]
  show ?thesis by (intro exI [of _ d]) (simp add: put_def)
next
  case (PlayerUndo d h f)
  with playerUndo_effect [of d "sessions w d" "tables w" f h]
  show ?thesis by (intro exI [of _ d]) (simp add: put_def)
next
  case (PlayerMassTie d now clock n hist f)
  with massTie_rows_effect [of d "sessions w d" "tables w" f now clock n hist]
  show ?thesis by (intro exI [of _ d]) (simp add: put_def)
next
  case (FetchRoomPlayers d f)
  with effect_same [of "players_tbl (tables w)" "players_tbl (tables w)"
      "fetchRoomPlayers f (sessions w d) (tables w)" "sessions w d" d]
  show ?thesis by (intro exI [of _ d]) (simp add: put_def fetchRoomPlayers_keeps)
next
  case (LeaveRoom d f)
  with effect_no_player [of "players_tbl (tables w)" "players_tbl (tables w)"
      "fst (leaveRoom f (sessions w d) (tables w))" d "sessions w d"]
  show ?thesis by (intro exI [of _ d]) (simp add: put_def leaveRoom_def)
next
  case (Reload d)
  with effect_no_player [of "players_tbl (tables w)" "players_tbl (tables w)"
      "fresh_session\<lparr>auto_join_room := auto_join_room (sessions w d)\<rparr>" d "sessions w d"]
  show ?thesis by (intro exI [of _ d]) (simp add: put_def fresh_session_def)
qed

lemma step_inv: "world_inv w \<Longrightarrow> world_inv (step w e)"
proof -
  assume inv: "world_inv w"
  from step_effect [of w e] obtain d where
    eff: "effect d (sessions w d) (players_tbl (tables w)) (sessions (step w e) d)
            (players_tbl (tables (step w e)))"
    and ss: "sessions (step w e) = (sessions w)(d := sessions (step w e) d)"
    by blast
  from inv have "nonplayers_zero (players_tbl (tables w))"
    and "roles_agree (sessions w) (players_tbl (tables w))"
    by (simp_all add: world_inv_def)
  from effect_preserves [OF this eff] ss show ?thesis
    by (simp add: world_inv_def)
qed

lemma run_events_inv: "world_inv w \<Longrightarrow> world_inv (run_events w es)"
  by (induction es arbitrary: w) (simp_all add: step_inv)

lemma initial_world_inv: "world_inv initial_world"
  by (simp add: world_inv_def initial_world_def nonplayers_zero_def roles_agree_def)

subsection \<open>The aggregate\<close>

text \<open>Rows with net 0 or null do not change the sum that \<^verbatim>\<open>reduce\<close> builds.\<close>

lemma foldl_skips_zero_rows:
  "nonplayers_zero data \<Longrightarrow>
   foldl (\<lambda>sum p. sum + num_or_zero (current_net p)) a data =
   foldl (\<lambda>sum p. sum + num_or_zero (current_net p)) a (filter (\<lambda>p. p_role p = Player) data)"
  by (induction data arbitrary: a) (simp_all add: nonplayers_zero_def)

lemma nonplayers_zero_filter: "nonplayers_zero rows \<Longrightarrow> nonplayers_zero (filter P rows)"
  by (simp add: nonplayers_zero_def)

text \<open>
  C3. Let the devices have made any sequence of calls, with any answers of the remote
  calls, starting from empty tables. When a session with a room id fetches the records of
  its room and the fetch is answered, the banker net it computes is the negated sum of the
  nets of exactly the fetched records whose role is Player. The fetch is what the hook
  runs on entering the room and on every change notification; it writes the result to the
  session only and leaves the tables as they are.
\<close>

theorem banker_net_negates_player_nets:
  assumes "roomId s = Some rid" and "rid \<noteq> []"
  shows "players (fetchRoomPlayers None s (tables (run_events initial_world es))) =
           filter (\<lambda>p. room_id p = rid) (players_tbl (tables (run_events initial_world es))) \<and>
         bankerNet (fetchRoomPlayers None s (tables (run_events initial_world es))) =
           negated_player_sum
             (players (fetchRoomPlayers None s (tables (run_events initial_world es)))) \<and>
         tables (step (run_events initial_world es) (FetchRoomPlayers d f)) =
           tables (run_events initial_world es)"
proof -
  let ?st = "tables (run_events initial_world es)"
  let ?data = "filter (\<lambda>p. room_id p = rid) (players_tbl ?st)"
  from run_events_inv [OF initial_world_inv, of es]
  have "nonplayers_zero (players_tbl ?st)" by (simp add: world_inv_def)
  then have zero: "nonplayers_zero ?data" by (rule nonplayers_zero_filter)
  have rows: "players (fetchRoomPlayers None s ?st) = ?data"
    using assms by (simp add: fetchRoomPlayers_def Let_def)
  have "bankerNet (fetchRoomPlayers None s ?st) =
      - foldl (\<lambda>sum p. sum + num_or_zero (current_net p)) 0 ?data"
    using assms by (simp add: fetchRoomPlayers_def Let_def)
  also have "\<dots> = negated_player_sum ?data"
    unfolding negated_player_sum_def using foldl_skips_zero_rows [OF zero, of 0] by simp
  finally have net: "bankerNet (fetchRoomPlayers None s ?st) = negated_player_sum ?data" .
  have "tables (step (run_events initial_world es) (FetchRoomPlayers d f)) = ?st"
    by (simp add: put_def)
  with rows net show ?thesis by simp
qed

theorem banker_net_negates_player_nets_witness:
  "roomId (sessions (run_events initial_world scenario_events) ''z'') = Some ''4821'' \<and>
   role (sessions (run_events initial_world scenario_events) ''z'') = Some Banker \<and>
   length (players (fetchRoomPlayers None
      (sessions (run_events initial_world scenario_events) ''z'')
      (tables (run_events initial_world scenario_events)))) = 3 \<and>
   bankerNet (fetchRoomPlayers None
      (sessions (run_events initial_world scenario_events) ''z'')
      (tables (run_events initial_world scenario_events))) = 10"
proof -
  let ?w = "run_events initial_world scenario_events"
  have r: "roomId (sessions ?w ''z'') = Some ''4821''"
    unfolding scenario_events_def initial_world_def by code_simp
  have b: "role (sessions ?w ''z'') = Some Banker"
    unfolding scenario_events_def initial_world_def by code_simp
  have n: "''4821'' \<noteq> []" by simp
  have rows: "length (filter (\<lambda>p. room_id p = ''4821'') (players_tbl (tables ?w))) = 3"
    unfolding scenario_events_def initial_world_def by code_simp
  have total: "negated_player_sum (filter (\<lambda>p. room_id p = ''4821'') (players_tbl (tables ?w))) = 10"
    unfolding scenario_events_def initial_world_def by code_simp
  from banker_net_negates_player_nets [OF r n, of scenario_events] r b rows total
  show ?thesis by simp
qed

end
